theory Spec2Isabelle
  imports Complex_Main "HOL-Library.Multiset"
begin

section \<open>The time-windowed cache of \<open>src/app/actions.ts\<close>\<close>

text \<open>
  The module keeps one process-wide \<open>Map\<close> from cache keys to entries
  \<open>{ data, timestamp }\<close>. Every function of the module reads and writes keys of its
  own prefix (\<open>balance_\<close>, \<open>tx_\<close>, \<open>chart_\<close>, ...) at its own type, so a cache is
  modelled as a map at the type of the data stored under that prefix. \<open>Date.now()\<close> is
  an explicit argument (integer milliseconds). Field names carry a prefix, since
  several interfaces of the source share the names \<open>timestamp\<close> and \<open>value\<close>.
\<close>

definition CACHE_DURATION :: int where
  "CACHE_DURATION = 60000"

record 'a CacheEntry =
  ce_data :: 'a
  ce_timestamp :: int

type_synonym 'a cache = "string \<rightharpoonup> 'a CacheEntry"

text \<open>
  \<open>getCachedData\<close>: the entry object is truthy whenever it exists, so the test is the
  freshness test alone; on a miss the key is deleted. The result pairs the returned
  value (\<open>None\<close> for \<open>null\<close>) with the cache after the call.
\<close>

definition getCachedData :: "string \<Rightarrow> int \<Rightarrow> 'a cache \<Rightarrow> 'a option \<times> 'a cache" where
  "getCachedData key now c =
     (case c key of
        Some cached \<Rightarrow>
          if now - ce_timestamp cached < CACHE_DURATION then (Some (ce_data cached), c)
          else (None, c(key := None))
      | None \<Rightarrow> (None, c(key := None)))"

definition setCachedData :: "string \<Rightarrow> 'a \<Rightarrow> int \<Rightarrow> 'a cache \<Rightarrow> 'a cache" where
  "setCachedData key d now c = c(key \<mapsto> \<lparr>ce_data = d, ce_timestamp = now\<rparr>)"

section \<open>JavaScript values used by the module\<close>

text \<open>
  A JavaScript number is modelled as an exact real, and a number that may be \<open>NaN\<close>
  as a \<open>real option\<close> (\<open>None\<close> is \<open>NaN\<close>); rounding of doubles and the infinities
  are not modelled. Strings are byte strings, and \<open>toLowerCase\<close> maps the ASCII capitals
  (addresses are ASCII hexadecimal).
\<close>

definition toLowerChar :: "char \<Rightarrow> char" where
  "toLowerChar ch =
     (case map_of (zip ''ABCDEFGHIJKLMNOPQRSTUVWXYZ'' ''abcdefghijklmnopqrstuvwxyz'') ch of
        Some l \<Rightarrow> l
      | None \<Rightarrow> ch)"

definition toLowerCase :: "string \<Rightarrow> string" where
  "toLowerCase s = map toLowerChar s"

definition startsWith :: "string \<Rightarrow> string \<Rightarrow> bool" where
  "startsWith s p = (take (length p) s = p)"

fun str_includes :: "string \<Rightarrow> string \<Rightarrow> bool" where
  "str_includes [] sub = (sub = [])"
| "str_includes (ch # cs) sub = (startsWith (ch # cs) sub \<or> str_includes cs sub)"

text \<open>\<open>x || 0\<close> for a number \<open>x\<close>: \<open>NaN\<close> and \<open>0\<close> are falsy.\<close>

definition or_zero :: "real option \<Rightarrow> real" where
  "or_zero x = (case x of None \<Rightarrow> 0 | Some v \<Rightarrow> v)"

text \<open>
  The library functions \<open>parseFloat\<close>, \<open>parseInt\<close>, \<open>ethers.formatEther\<close>,
  \<open>ethers.formatUnits\<close> and \<open>ethers.parseUnits\<close> are arguments of the functions that
  call them, so the general theorems hold whatever these functions answer. The
  definitions below are their behaviour on plain decimal strings
  (\<open>[-]digits[.digits]\<close>, the strings that \<open>formatUnits\<close> produces), for evaluating
  concrete calls. On any other string \<open>parseFloat_dec\<close> and \<open>parseInt_dec\<close> answer
  \<open>NaN\<close>, also where JavaScript would read a numeric prefix, and \<open>parse_nat\<close> fails.
\<close>

definition digit_val :: "char \<Rightarrow> nat option" where
  "digit_val ch =
     (if 48 \<le> (of_char ch :: nat) \<and> (of_char ch :: nat) \<le> 57
      then Some ((of_char ch :: nat) - 48) else None)"

fun digits_val :: "string \<Rightarrow> nat \<Rightarrow> nat option" where
  "digits_val [] acc = Some acc"
| "digits_val (ch # cs) acc =
     (case digit_val ch of None \<Rightarrow> None | Some d \<Rightarrow> digits_val cs (10 * acc + d))"

definition parse_nat :: "string \<Rightarrow> nat option" where
  "parse_nat s = (if s = [] then None else digits_val s 0)"

definition parseInt_dec :: "string \<Rightarrow> int option" where
  "parseInt_dec s =
     (case s of
        [] \<Rightarrow> None
      | ch # cs \<Rightarrow>
          if ch = CHR ''-'' then map_option (\<lambda>n. - int n) (parse_nat cs)
          else map_option int (parse_nat s))"

definition parse_unsigned_dec :: "string \<Rightarrow> real option" where
  "parse_unsigned_dec s =
     (let ip = takeWhile (\<lambda>ch. ch \<noteq> CHR ''.'') s;
          rest = dropWhile (\<lambda>ch. ch \<noteq> CHR ''.'') s;
          fp = (if rest = [] then [] else tl rest)
      in if ip = [] \<and> fp = [] then None
         else (case (digits_val ip 0, digits_val fp 0) of
                 (Some a, Some b) \<Rightarrow> Some (real a + real b / 10 ^ length fp)
               | _ \<Rightarrow> None))"

definition parseFloat_dec :: "string \<Rightarrow> real option" where
  "parseFloat_dec s =
     (case s of
        [] \<Rightarrow> None
      | ch # cs \<Rightarrow>
          if ch = CHR ''-'' then map_option uminus (parse_unsigned_dec cs)
          else parse_unsigned_dec s)"

section \<open>Transactions and the profit/loss step\<close>

datatype tx_type = deposit | withdraw

datatype asset = ETH | TOKEN

record Transaction =
  tx_hash :: string
  tx_from :: string
  tx_to :: string
  tx_value :: string
  tx_timestamp :: "int option"
  tx_type :: tx_type
  tx_tokenValue :: string
  tx_asset :: asset

text \<open>
  The arithmetic of the profit/loss step. The code computes on JavaScript numbers
  (IEEE 754 doubles), whose addition rounds and is not associative. The step is
  therefore modelled over an arbitrary type of numbers \<open>'n\<close> with the operations it
  uses: the numeric literals of the source, \<open>+\<close>, \<open>-\<close>, \<open>*\<close>, \<open>/\<close>, \<open><=\<close>, \<open><\<close> and
  truthiness (for \<open>x || 0\<close>). \<open>parseFloat\<close> answers a number of that type, \<open>NaN\<close>
  included. What is proved of the step holds for every such arithmetic, the doubles
  among them.
\<close>

record 'n Arith =
  n_lit :: "int \<Rightarrow> 'n"
  n_add :: "'n \<Rightarrow> 'n \<Rightarrow> 'n"
  n_sub :: "'n \<Rightarrow> 'n \<Rightarrow> 'n"
  n_mul :: "'n \<Rightarrow> 'n \<Rightarrow> 'n"
  n_div :: "'n \<Rightarrow> 'n \<Rightarrow> 'n"
  n_le :: "'n \<Rightarrow> 'n \<Rightarrow> bool"
  n_less :: "'n \<Rightarrow> 'n \<Rightarrow> bool"
  n_truthy :: "'n \<Rightarrow> bool"

text \<open>\<open>x || 0\<close>: the number \<open>x\<close> when it is truthy, and the literal \<open>0\<close> otherwise.\<close>

definition or_literal_zero :: "'n Arith \<Rightarrow> 'n \<Rightarrow> 'n" where
  "or_literal_zero ar x = (if n_truthy ar x then x else n_lit ar 0)"

record 'n ProfitLoss =
  profit :: 'n
  profitPercent :: 'n

text \<open>The \<open>for\<close> loop of \<open>calculateTokenProfitLoss\<close> over \<open>(totalIn, totalOut)\<close>.\<close>

fun profit_loop ::
  "'n Arith \<Rightarrow> (string \<Rightarrow> 'n) \<Rightarrow> string \<Rightarrow> Transaction list \<Rightarrow> 'n \<times> 'n \<Rightarrow> 'n \<times> 'n" where
  "profit_loop ar parseFloat publicKey [] (totalIn, totalOut) = (totalIn, totalOut)"
| "profit_loop ar parseFloat publicKey (tx # txs) (totalIn, totalOut) =
     (let v = or_literal_zero ar (parseFloat (tx_tokenValue tx))
      in if toLowerCase (tx_to tx) = toLowerCase publicKey
         then profit_loop ar parseFloat publicKey txs (n_add ar totalIn v, totalOut)
         else profit_loop ar parseFloat publicKey txs (totalIn, n_add ar totalOut v))"

definition calculateTokenProfitLoss ::
  "'n Arith \<Rightarrow> (string \<Rightarrow> 'n) \<Rightarrow> Transaction list \<Rightarrow> string \<Rightarrow> string \<Rightarrow> 'n ProfitLoss" where
  "calculateTokenProfitLoss ar parseFloat transactions currentTokenBalance publicKey =
     (let tokenTxs = filter (\<lambda>tx. tx_asset tx = TOKEN) transactions
      in if length tokenTxs = 0 then \<lparr>profit = n_lit ar 0, profitPercent = n_lit ar 0\<rparr>
         else
           (let (totalIn, totalOut) =
                  profit_loop ar parseFloat publicKey tokenTxs (n_lit ar 0, n_lit ar 0);
                current = parseFloat currentTokenBalance;
                invested = n_sub ar totalIn totalOut
            in if n_le ar invested (n_lit ar 0)
               then \<lparr>profit = current,
                     profitPercent =
                       (if n_less ar invested (n_lit ar 0) then n_lit ar 100 else n_lit ar 0)\<rparr>
               else
                 (let p = n_sub ar current invested;
                      pp = n_mul ar (n_div ar p invested) (n_lit ar 100)
                  in \<lparr>profit = p, profitPercent = pp\<rparr>)))"

text \<open>
  The profit/loss rule in the words of the specification: the token transfers, the sum
  of the amounts received by the address (compared without regard to case), the sum of
  all other amounts, and the case distinction on \<open>invested\<close>. A sum is taken from 0
  in the order of the list.
\<close>

definition token_transfers :: "Transaction list \<Rightarrow> Transaction list" where
  "token_transfers txs = filter (\<lambda>tx. tx_asset tx = TOKEN) txs"

definition token_amount :: "'n Arith \<Rightarrow> (string \<Rightarrow> 'n) \<Rightarrow> Transaction \<Rightarrow> 'n" where
  "token_amount ar parseFloat tx = or_literal_zero ar (parseFloat (tx_tokenValue tx))"

definition received_by :: "string \<Rightarrow> Transaction \<Rightarrow> bool" where
  "received_by address tx = (toLowerCase (tx_to tx) = toLowerCase address)"

definition sum_in_order :: "'n Arith \<Rightarrow> 'n list \<Rightarrow> 'n" where
  "sum_in_order ar xs = foldl (n_add ar) (n_lit ar 0) xs"

definition spec_totalIn :: "'n Arith \<Rightarrow> (string \<Rightarrow> 'n) \<Rightarrow> string \<Rightarrow> Transaction list \<Rightarrow> 'n" where
  "spec_totalIn ar parseFloat address txs =
     sum_in_order ar
       (map (token_amount ar parseFloat) (filter (received_by address) (token_transfers txs)))"

definition spec_totalOut :: "'n Arith \<Rightarrow> (string \<Rightarrow> 'n) \<Rightarrow> string \<Rightarrow> Transaction list \<Rightarrow> 'n" where
  "spec_totalOut ar parseFloat address txs =
     sum_in_order ar
       (map (token_amount ar parseFloat)
          (filter (\<lambda>tx. \<not> received_by address tx) (token_transfers txs)))"

definition spec_profit_loss ::
  "'n Arith \<Rightarrow> (string \<Rightarrow> 'n) \<Rightarrow> Transaction list \<Rightarrow> string \<Rightarrow> string \<Rightarrow> 'n ProfitLoss" where
  "spec_profit_loss ar parseFloat txs currentTokenBalance address =
     (if token_transfers txs = [] then \<lparr>profit = n_lit ar 0, profitPercent = n_lit ar 0\<rparr>
      else
        (let current = parseFloat currentTokenBalance;
             invested =
               n_sub ar (spec_totalIn ar parseFloat address txs)
                 (spec_totalOut ar parseFloat address txs)
         in if n_le ar invested (n_lit ar 0)
            then \<lparr>profit = current,
                  profitPercent =
                    (if n_less ar invested (n_lit ar 0) then n_lit ar 100 else n_lit ar 0)\<rparr>
            else \<lparr>profit = n_sub ar current invested,
                  profitPercent =
                    n_mul ar (n_div ar (n_sub ar current invested) invested) (n_lit ar 100)\<rparr>))"

section \<open>The doubles\<close>

text \<open>
  The arithmetic of IEEE 754 binary64 with rounding to nearest, ties to even, for
  evaluating concrete calls: a number is \<open>NaN\<close>, an infinity or a real that a double
  represents. \<open>round64\<close> rounds a real to the nearest double (subnormal numbers and
  overflow to an infinity included); the exponent is found by binary search among the
  exponents of the format. The two zeros of the format are one number here: the
  profit/loss step divides only by a number above zero.
\<close>

datatype number = NaN | PosInf | NegInf | Num real

fun exp_search :: "real \<Rightarrow> int \<Rightarrow> nat \<Rightarrow> int" where
  "exp_search a lo k =
     (if k = 0 then lo
      else if 2 powi (lo + 2 ^ (k - 1)) \<le> a then exp_search a (lo + 2 ^ (k - 1)) (k - 1)
      else exp_search a lo (k - 1))"

declare exp_search.simps [simp del]

definition round_half_even :: "real \<Rightarrow> int" where
  "round_half_even m =
     (let f = \<lfloor>m\<rfloor>; d = m - of_int f
      in if d < 1 / 2 then f else if 1 / 2 < d then f + 1 else if even f then f else f + 1)"

definition round64 :: "real \<Rightarrow> number" where
  "round64 x =
     (if x = 0 then Num 0
      else
        (let a = \<bar>x\<bar>;
             e = exp_search a (- 1074) 12;
             q = max (e - 52) (- 1074);
             y = of_int (round_half_even (a / 2 powi q)) * 2 powi q
         in if 2 powi 1024 \<le> y then (if x < 0 then NegInf else PosInf)
            else Num (if x < 0 then - y else y)))"

fun number_neg :: "number \<Rightarrow> number" where
  "number_neg NaN = NaN"
| "number_neg PosInf = NegInf"
| "number_neg NegInf = PosInf"
| "number_neg (Num a) = Num (- a)"

fun is_negative :: "number \<Rightarrow> bool" where
  "is_negative NegInf = True"
| "is_negative (Num a) = (a < 0)"
| "is_negative x = False"

fun number_add :: "number \<Rightarrow> number \<Rightarrow> number" where
  "number_add (Num a) (Num b) = round64 (a + b)"
| "number_add NaN y = NaN"
| "number_add x NaN = NaN"
| "number_add PosInf NegInf = NaN"
| "number_add NegInf PosInf = NaN"
| "number_add PosInf y = PosInf"
| "number_add NegInf y = NegInf"
| "number_add x PosInf = PosInf"
| "number_add x NegInf = NegInf"

definition number_sub :: "number \<Rightarrow> number \<Rightarrow> number" where
  "number_sub x y = number_add x (number_neg y)"

fun number_mul :: "number \<Rightarrow> number \<Rightarrow> number" where
  "number_mul (Num a) (Num b) = round64 (a * b)"
| "number_mul NaN y = NaN"
| "number_mul x NaN = NaN"
| "number_mul x y =
     (if x = Num 0 \<or> y = Num 0 then NaN
      else if is_negative x = is_negative y then PosInf else NegInf)"

fun number_div :: "number \<Rightarrow> number \<Rightarrow> number" where
  "number_div (Num a) (Num b) =
     (if b = 0 then (if a = 0 then NaN else if 0 < a then PosInf else NegInf)
      else round64 (a / b))"
| "number_div NaN y = NaN"
| "number_div x NaN = NaN"
| "number_div (Num a) y = Num 0"
| "number_div x (Num b) = (if is_negative x = (b < 0) then PosInf else NegInf)"
| "number_div x y = NaN"

fun number_le :: "number \<Rightarrow> number \<Rightarrow> bool" where
  "number_le (Num a) (Num b) = (a \<le> b)"
| "number_le NaN y = False"
| "number_le x NaN = False"
| "number_le NegInf y = True"
| "number_le x PosInf = True"
| "number_le x y = False"

fun number_less :: "number \<Rightarrow> number \<Rightarrow> bool" where
  "number_less (Num a) (Num b) = (a < b)"
| "number_less NaN y = False"
| "number_less x NaN = False"
| "number_less NegInf NegInf = False"
| "number_less NegInf y = True"
| "number_less PosInf y = False"
| "number_less x PosInf = True"
| "number_less x y = False"

fun number_truthy :: "number \<Rightarrow> bool" where
  "number_truthy NaN = False"
| "number_truthy (Num a) = (a \<noteq> 0)"
| "number_truthy x = True"

definition binary64 :: "number Arith" where
  "binary64 = \<lparr>n_lit = (\<lambda>i. round64 (of_int i)), n_add = number_add, n_sub = number_sub,
     n_mul = number_mul, n_div = number_div, n_le = number_le, n_less = number_less,
     n_truthy = number_truthy\<rparr>"

text \<open>\<open>parseFloat\<close> on a plain decimal string: the double nearest to its value.\<close>

definition parseFloat64 :: "string \<Rightarrow> number" where
  "parseFloat64 s = (case parseFloat_dec s of None \<Rightarrow> NaN | Some x \<Rightarrow> round64 x)"

section \<open>Errors, the environment and the library\<close>

text \<open>
  A thrown \<open>Error\<close> (or a rejected promise) is a value \<open>Error message\<close>; a computation
  that may throw returns \<open>error + 'a\<close>, with \<open>Inl\<close> for the throw.
\<close>

datatype error = Error string

text \<open>
  \<open>process.env\<close>: every variable is a string or \<open>undefined\<close> (\<open>None\<close>).
\<close>

record Env =
  ETHERSCAN_API_KEY :: "string option"
  NEXT_PUBLIC_CHAIN_ID :: "string option"
  RPC_URL :: "string option"
  WALLET_PRIVATE_KEY :: "string option"
  TOKEN_CONTRACT_ADDRESS :: "string option"

text \<open>
  \<open>!v || v.includes('your')\<close>: the test the module applies to a configuration value
  (\<open>undefined\<close> and the empty string are falsy).
\<close>

definition not_configured :: "string option \<Rightarrow> bool" where
  "not_configured v = (case v of None \<Rightarrow> True | Some s \<Rightarrow> s = [] \<or> str_includes s ''your'')"

text \<open>A value inside a template literal: \<open>undefined\<close> prints as \<open>undefined\<close>.\<close>

definition template_str :: "string option \<Rightarrow> string" where
  "template_str v = (case v of None \<Rightarrow> ''undefined'' | Some s \<Rightarrow> s)"

text \<open>
  The second argument of \<open>ethers.formatUnits\<close>: a string (read by ethers as the name of
  a unit) or a number of decimals.
\<close>

datatype unit_arg = UnitName string | UnitDecimals int

text \<open>
  The library as \<open>getTransactionHistory\<close> and \<open>getChartData\<close> use it. \<open>array_sort\<close> is
  \<open>Array.prototype.sort\<close> on an array of transactions with a comparator, whose result
  may be \<open>NaN\<close> (\<open>None\<close>).
\<close>

record Lib =
  parseFloat :: "string \<Rightarrow> real option"
  parseInt :: "string \<Rightarrow> int option"
  formatEther :: "string \<Rightarrow> error + string"
  formatUnits :: "string \<Rightarrow> unit_arg \<Rightarrow> error + string"
  array_sort :: "(Transaction \<Rightarrow> Transaction \<Rightarrow> int option) \<Rightarrow> Transaction list
                   \<Rightarrow> Transaction list"

section \<open>The transfer history: \<open>getTransactionHistory\<close>\<close>

text \<open>
  A record of a ledger-API result array. The fields are untyped JSON in the source; the
  model keeps what the code does with each: \<open>tx.to.toLowerCase()\<close> throws a
  \<open>TypeError\<close> when \<open>tx.to\<close> is missing (\<open>None\<close>), and \<open>tx.tokenDecimal\<close> is falsy when
  missing or empty.
\<close>

record RawTx =
  raw_hash :: string
  raw_from :: string
  raw_to :: "string option"
  raw_value :: string
  raw_timeStamp :: string
  raw_tokenDecimal :: "string option"

text \<open>
  \<open>response.data\<close>: \<open>resp_result\<close> is \<open>None\<close> when \<open>data.result\<close> is not an array.
\<close>

record Response =
  resp_status :: string
  resp_result :: "RawTx list option"

text \<open>The two awaited requests: each resolves to a response or rejects.\<close>

record Net =
  txlist :: "error + Response"
  tokentx :: "error + Response"

text \<open>\<open>xs.map(f)\<close> where \<open>f\<close> may throw: the first throw aborts the map.\<close>

fun map_err :: "('a \<Rightarrow> error + 'b) \<Rightarrow> 'a list \<Rightarrow> error + 'b list" where
  "map_err f [] = Inr []"
| "map_err f (x # xs) =
     (case f x of
        Inl e \<Rightarrow> Inl e
      | Inr y \<Rightarrow> (case map_err f xs of Inl e \<Rightarrow> Inl e | Inr ys \<Rightarrow> Inr (y # ys)))"

definition direction :: "string \<Rightarrow> string \<Rightarrow> tx_type" where
  "direction to publicKey =
     (if toLowerCase to = toLowerCase publicKey then deposit else withdraw)"

definition ms_timestamp :: "Lib \<Rightarrow> string \<Rightarrow> int option" where
  "ms_timestamp lib timeStamp = map_option (\<lambda>n. n * 1000) (parseInt lib timeStamp)"

definition eth_transaction :: "Lib \<Rightarrow> string \<Rightarrow> RawTx \<Rightarrow> error + Transaction" where
  "eth_transaction lib publicKey tx =
     (case formatEther lib (raw_value tx) of
        Inl e \<Rightarrow> Inl e
      | Inr v \<Rightarrow>
          (case raw_to tx of
             None \<Rightarrow> Inl (Error ''TypeError'')
           | Some to \<Rightarrow>
               Inr \<lparr>tx_hash = raw_hash tx, tx_from = raw_from tx, tx_to = to, tx_value = v,
                    tx_timestamp = ms_timestamp lib (raw_timeStamp tx),
                    tx_type = direction to publicKey,
                    tx_tokenValue = ''0'', tx_asset = ETH\<rparr>))"

definition token_unit :: "RawTx \<Rightarrow> int \<Rightarrow> unit_arg" where
  "token_unit tx tokenDecimals =
     (case raw_tokenDecimal tx of
        None \<Rightarrow> UnitDecimals tokenDecimals
      | Some d \<Rightarrow> if d = [] then UnitDecimals tokenDecimals else UnitName d)"

definition token_transaction :: "Lib \<Rightarrow> string \<Rightarrow> int \<Rightarrow> RawTx \<Rightarrow> error + Transaction" where
  "token_transaction lib publicKey tokenDecimals tx =
     (case raw_to tx of
        None \<Rightarrow> Inl (Error ''TypeError'')
      | Some to \<Rightarrow>
          (case formatUnits lib (raw_value tx) (token_unit tx tokenDecimals) of
             Inl e \<Rightarrow> Inl e
           | Inr v \<Rightarrow>
               Inr \<lparr>tx_hash = raw_hash tx, tx_from = raw_from tx, tx_to = to, tx_value = ''0'',
                    tx_timestamp = ms_timestamp lib (raw_timeStamp tx),
                    tx_type = direction to publicKey,
                    tx_tokenValue = v, tx_asset = TOKEN\<rparr>))"

text \<open>
  \<open>status === '1' && Array.isArray(result)\<close>, then \<open>result.slice(0, n)\<close>; otherwise the
  response contributes no record.
\<close>

definition accepted :: "Response \<Rightarrow> nat \<Rightarrow> RawTx list" where
  "accepted r n =
     (if resp_status r = ''1''
      then (case resp_result r of Some rs \<Rightarrow> take n rs | None \<Rightarrow> [])
      else [])"

text \<open>
  \<open>transactions.sort((a, b) => b.timestamp - a.timestamp)\<close>: the comparator of the
  source, whose result is \<open>NaN\<close> when a timestamp is.
\<close>

definition compare_desc :: "Transaction \<Rightarrow> Transaction \<Rightarrow> int option" where
  "compare_desc a b =
     (case (tx_timestamp b, tx_timestamp a) of
        (Some tb, Some ta) \<Rightarrow> Some (tb - ta)
      | _ \<Rightarrow> None)"



definition cmp_greater :: "('a \<Rightarrow> 'a \<Rightarrow> int option) \<Rightarrow> 'a \<Rightarrow> 'a \<Rightarrow> bool" where
  "cmp_greater cmp a b = (case cmp a b of Some v \<Rightarrow> 0 < v | None \<Rightarrow> False)"


fun stable_insert :: "('a \<Rightarrow> 'a \<Rightarrow> int option) \<Rightarrow> 'a \<Rightarrow> 'a list \<Rightarrow> 'a list" where
  "stable_insert cmp x [] = [x]"
| "stable_insert cmp x (y # ys) =
     (if cmp_greater cmp x y then y # stable_insert cmp x ys else x # y # ys)"

definition stable_sort :: "('a \<Rightarrow> 'a \<Rightarrow> int option) \<Rightarrow> 'a list \<Rightarrow> 'a list" where
  "stable_sort cmp xs = foldr (stable_insert cmp) xs []"


text \<open>
  The body of the \<open>try\<close> block, from the two awaited responses to the sorted array
  \<open>transactions\<close>; \<open>Promise.all\<close> rejects when one of the requests rejects.
\<close>

definition fetch_transactions :: "Lib \<Rightarrow> Net \<Rightarrow> string \<Rightarrow> int \<Rightarrow> error + Transaction list" where
  "fetch_transactions lib net publicKey tokenDecimals =
     (case txlist net of
        Inl e \<Rightarrow> Inl e
      | Inr txResponse \<Rightarrow>
          (case tokentx net of
             Inl e \<Rightarrow> Inl e
           | Inr tokenTxResponse \<Rightarrow>
               (case map_err (eth_transaction lib publicKey) (accepted txResponse 10) of
                  Inl e \<Rightarrow> Inl e
                | Inr ethTxs \<Rightarrow>
                    (case map_err (token_transaction lib publicKey tokenDecimals)
                            (accepted tokenTxResponse 20) of
                       Inl e \<Rightarrow> Inl e
                     | Inr tokenTxs \<Rightarrow>
                         Inr (array_sort lib compare_desc (ethTxs @ tokenTxs))))))"

definition tx_cacheKey :: "Env \<Rightarrow> string \<Rightarrow> string" where
  "tx_cacheKey env publicKey =
     ''tx_'' @ publicKey @ ''_'' @ template_str (NEXT_PUBLIC_CHAIN_ID env)"

text \<open>
  \<open>getTransactionHistory\<close>. \<open>now\<close> is \<open>Date.now()\<close> at the cache read and \<open>now'\<close> at
  the cache write; a cached array is truthy, also when empty. The result is the returned
  array (\<open>Inl\<close> would be a throw) and the cache after the call.
\<close>

definition getTransactionHistory ::
  "Lib \<Rightarrow> Env \<Rightarrow> Net \<Rightarrow> int \<Rightarrow> int \<Rightarrow> string \<Rightarrow> int \<Rightarrow> Transaction list cache
     \<Rightarrow> (error + Transaction list) \<times> Transaction list cache" where
  "getTransactionHistory lib env net now now' publicKey tokenDecimals c =
     (let cacheKey = tx_cacheKey env publicKey
      in case getCachedData cacheKey now c of
           (Some cached, c1) \<Rightarrow> (Inr cached, c1)
         | (None, c1) \<Rightarrow>
             if not_configured (ETHERSCAN_API_KEY env) then (Inr [], c1)
             else
               (case fetch_transactions lib net publicKey tokenDecimals of
                  Inr transactions \<Rightarrow>
                    (Inr (take 30 transactions),
                     setCachedData cacheKey (take 30 transactions) now' c1)
                | Inl e \<Rightarrow> (Inr [], c1)))"











text \<open>
  \<open>ethers.formatUnits\<close> on a non-negative decimal string: the value with the decimal
  point \<open>decimals\<close> places from the right, zeros trimmed to at least one digit on each
  side, and no decimal point when \<open>decimals = 0\<close>. A string unit must be one of the
  unit names of ethers.
\<close>

definition digit_char :: "nat \<Rightarrow> char" where
  "digit_char d = ''0123456789'' ! d"

fun show_nat :: "nat \<Rightarrow> string" where
  "show_nat n = (if n < 10 then [digit_char n] else show_nat (n div 10) @ [digit_char (n mod 10)])"

declare show_nat.simps [simp del]

fun show_padded :: "nat \<Rightarrow> nat \<Rightarrow> string" where
  "show_padded k n =
     (if k = 0 then [] else show_padded (k - 1) (n div 10) @ [digit_char (n mod 10)])"

declare show_padded.simps [simp del]

definition trim_zeros :: "string \<Rightarrow> string" where
  "trim_zeros s = (let t = rev (dropWhile (\<lambda>ch. ch = CHR ''0'') (rev s)) in if t = [] then ''0'' else t)"

definition format_units :: "nat \<Rightarrow> nat \<Rightarrow> string" where
  "format_units v decimals =
     (if decimals = 0 then show_nat v
      else show_nat (v div 10 ^ decimals) @ ''.'' @ trim_zeros (show_padded decimals (v mod 10 ^ decimals)))"

definition unit_names :: "string list" where
  "unit_names = [''wei'', ''kwei'', ''mwei'', ''gwei'', ''szabo'', ''finney'', ''ether'']"

fun index_of :: "'a \<Rightarrow> 'a list \<Rightarrow> nat option" where
  "index_of x [] = None"
| "index_of x (y # ys) = (if x = y then Some 0 else map_option Suc (index_of x ys))"

definition formatUnits_dec :: "string \<Rightarrow> unit_arg \<Rightarrow> error + string" where
  "formatUnits_dec v unit =
     (case (case unit of
              UnitName u \<Rightarrow> map_option (\<lambda>i. 3 * i) (index_of u unit_names)
            | UnitDecimals d \<Rightarrow> if 0 \<le> d then Some (nat d) else None) of
        None \<Rightarrow> Inl (Error ''invalid unit'')
      | Some decimals \<Rightarrow>
          (case parse_nat v of
             None \<Rightarrow> Inl (Error ''invalid BigNumberish string'')
           | Some n \<Rightarrow> Inr (format_units n decimals)))"

definition formatEther_dec :: "string \<Rightarrow> error + string" where
  "formatEther_dec v = formatUnits_dec v (UnitDecimals 18)"

definition lib_dec :: Lib where
  "lib_dec = \<lparr>parseFloat = parseFloat_dec, parseInt = parseInt_dec,
              formatEther = formatEther_dec, formatUnits = formatUnits_dec,
              array_sort = stable_sort\<rparr>"

section \<open>The chart: \<open>getChartData\<close> and \<open>generateEmptyChart\<close>\<close>

record ChartDataPoint =
  cp_value :: real
  cp_timestamp :: real

text \<open>
  The table \<open>ranges\<close> with \<open>ranges[period] || ranges['1D']\<close>, and the number of
  intervals (\<open>intervals\<close> in \<open>getChartData\<close>, \<open>count\<close> in \<open>generateEmptyChart\<close>).
\<close>

definition ranges :: "(string \<times> real) list" where
  "ranges =
     [(''1H'', 60 * 60 * 1000),
      (''6H'', 6 * 60 * 60 * 1000),
      (''1D'', 24 * 60 * 60 * 1000),
      (''1W'', 7 * 24 * 60 * 60 * 1000),
      (''1M'', 30 * 24 * 60 * 60 * 1000),
      (''All'', 365 * 24 * 60 * 60 * 1000)]"

definition range_of :: "string \<Rightarrow> real" where
  "range_of period =
     (case map_of ranges period of Some r \<Rightarrow> r | None \<Rightarrow> 24 * 60 * 60 * 1000)"

definition interval_count :: "string \<Rightarrow> nat" where
  "interval_count period =
     (if period = ''1H'' then 12 else if period = ''6H'' then 24
      else if period = ''1D'' then 48 else 50)"

text \<open>
  \<open>Array.from({ length: count }, (_, i) => ...)\<close>: the points for \<open>i = 0, ..., count - 1\<close>.
\<close>

definition generateEmptyChart :: "string \<Rightarrow> int \<Rightarrow> ChartDataPoint list" where
  "generateEmptyChart period now =
     (let range = range_of period;
          count = interval_count period
      in map (\<lambda>i. \<lparr>cp_value = 1000,
                    cp_timestamp = real_of_int now - (real count - real i) * (range / real count)\<rparr>)
           [0..<count])"

text \<open>
  The inner loop over \<open>tokenTxs\<close>; \<open>tx.timestamp <= timestamp\<close> is false for a \<open>NaN\<close>
  timestamp.
\<close>

fun running_balance ::
  "(string \<Rightarrow> real option) \<Rightarrow> real \<Rightarrow> Transaction list \<Rightarrow> real \<Rightarrow> real" where
  "running_balance pf timestamp [] runningBalance = runningBalance"
| "running_balance pf timestamp (tx # txs) runningBalance =
     (if (case tx_timestamp tx of Some t \<Rightarrow> real_of_int t \<le> timestamp | None \<Rightarrow> False)
      then (let v = or_zero (pf (tx_tokenValue tx))
            in if tx_type tx = deposit
               then running_balance pf timestamp txs (runningBalance + v)
               else running_balance pf timestamp txs (runningBalance - v))
      else running_balance pf timestamp txs runningBalance)"

definition chart_point ::
  "(string \<Rightarrow> real option) \<Rightarrow> Transaction list \<Rightarrow> int \<Rightarrow> real \<Rightarrow> nat \<Rightarrow> nat \<Rightarrow> ChartDataPoint" where
  "chart_point pf tokenTxs now timeRange intervals i =
     (let timestamp = real_of_int now - (real i * timeRange / real intervals)
      in \<lparr>cp_value = max 0 (running_balance pf timestamp tokenTxs 0),
          cp_timestamp = timestamp\<rparr>)"

text \<open>\<open>for (let i = intervals; i >= 0; i--) points.push(...)\<close>, from \<open>i\<close> downwards.\<close>

fun chart_loop :: "(nat \<Rightarrow> ChartDataPoint) \<Rightarrow> nat \<Rightarrow> ChartDataPoint list" where
  "chart_loop point 0 = [point 0]"
| "chart_loop point (Suc i) = point (Suc i) # chart_loop point i"

definition chart_cacheKey :: "Env \<Rightarrow> string \<Rightarrow> string \<Rightarrow> string" where
  "chart_cacheKey env publicKey period =
     ''chart_'' @ publicKey @ ''_'' @ period @ ''_'' @ template_str (NEXT_PUBLIC_CHAIN_ID env)"

text \<open>
  The readings of \<open>Date.now()\<close> during one call of \<open>getChartData\<close>, in the order of
  the calls: the read of the chart cache, the read and the write of the history cache
  inside \<open>getTransactionHistory\<close>, the \<open>now\<close> of the series (in \<open>getChartData\<close> or in
  \<open>generateEmptyChart\<close>) and the write of the chart cache.
\<close>

record Times =
  t_chart_read :: int
  t_tx_read :: int
  t_tx_write :: int
  t_now :: int
  t_chart_write :: int

text \<open>
  \<open>getChartData\<close>. The state is the history cache and the chart cache. A throw inside
  the \<open>try\<close> block (\<open>Inl\<close>) is answered with \<open>generateEmptyChart\<close>.
\<close>

definition getChartData ::
  "Lib \<Rightarrow> Env \<Rightarrow> Net \<Rightarrow> Times \<Rightarrow> string \<Rightarrow> string
     \<Rightarrow> Transaction list cache \<Rightarrow> ChartDataPoint list cache
     \<Rightarrow> ChartDataPoint list \<times> Transaction list cache \<times> ChartDataPoint list cache" where
  "getChartData lib env net tm publicKey period txc cc =
     (let cacheKey = chart_cacheKey env publicKey period
      in case getCachedData cacheKey (t_chart_read tm) cc of
           (Some cached, cc1) \<Rightarrow> (cached, txc, cc1)
         | (None, cc1) \<Rightarrow>
             (case getTransactionHistory lib env net (t_tx_read tm) (t_tx_write tm)
                     publicKey 6 txc of
                (Inl e, txc1) \<Rightarrow> (generateEmptyChart period (t_now tm), txc1, cc1)
              | (Inr transactions, txc1) \<Rightarrow>
                  (let tokenTxs = filter (\<lambda>tx. tx_asset tx = TOKEN) transactions
                   in if length tokenTxs = 0
                      then (generateEmptyChart period (t_now tm), txc1, cc1)
                      else
                        (let now = t_now tm;
                             timeRange = range_of period;
                             intervals = interval_count period;
                             points = chart_loop
                               (chart_point (parseFloat lib) tokenTxs now timeRange intervals)
                               intervals
                         in (points, txc1,
                             setCachedData cacheKey points (t_chart_write tm) cc1)))))"

text \<open>
  A series as the chart needs it: timestamps strictly ascending and no negative value.
  A chart cache is in order when every series it holds is.
\<close>

definition series_ok :: "ChartDataPoint list \<Rightarrow> bool" where
  "series_ok ps =
     (sorted_wrt (\<lambda>a b. cp_timestamp a < cp_timestamp b) ps \<and> list_all (\<lambda>p. 0 \<le> cp_value p) ps)"

definition chart_cache_ok :: "ChartDataPoint list cache \<Rightarrow> bool" where
  "chart_cache_ok cc = (\<forall>k e. cc k = Some e \<longrightarrow> series_ok (ce_data e))"

section \<open>The balance snapshot: \<open>getWalletBalance\<close>\<close>

record WalletData =
  wd_balance :: string
  wd_portfolioValue :: string
  wd_profit :: string
  wd_profitPercent :: "real option"
  wd_tokenBalance :: string
  wd_transactions :: "Transaction list"
  wd_ethPrice :: real

definition balance_cacheKey :: "Env \<Rightarrow> string \<Rightarrow> string" where
  "balance_cacheKey env publicKey =
     ''balance_'' @ publicKey @ ''_'' @ template_str (NEXT_PUBLIC_CHAIN_ID env)"

text \<open>
  \<open>!a || !a.startsWith('0x') || a.length !== 42\<close>, the address test of
  \<open>getWalletBalance\<close> and of \<open>withdrawFunds\<close>.
\<close>

definition invalid_address :: "string \<Rightarrow> bool" where
  "invalid_address a = (a = [] \<or> \<not> startsWith a ''0x'' \<or> length a \<noteq> 42)"

text \<open>
  \<open>getWalletBalance\<close>. The argument \<open>fetched\<close> is the outcome of the \<open>try\<close> block up to
  the construction of \<open>data\<close> (the calls to the provider and the token contract, the
  price, the history and \<open>calculateTokenProfitLoss\<close>): the data, or the error thrown
  there, which the \<open>catch\<close> wraps. \<open>now\<close> is \<open>Date.now()\<close> at the cache read and
  \<open>now'\<close> at the cache write; a cached snapshot is an object and so truthy.
\<close>

definition getWalletBalance ::
  "Env \<Rightarrow> int \<Rightarrow> int \<Rightarrow> string \<Rightarrow> error + WalletData \<Rightarrow> WalletData cache
     \<Rightarrow> (error + WalletData) \<times> WalletData cache" where
  "getWalletBalance env now now' publicKey fetched c =
     (let cacheKey = balance_cacheKey env publicKey
      in case getCachedData cacheKey now c of
           (Some cached, c1) \<Rightarrow> (Inr cached, c1)
         | (None, c1) \<Rightarrow>
             if invalid_address publicKey
             then (Inl (Error ''Invalid Ethereum address''), c1)
             else if not_configured (RPC_URL env)
             then (Inl (Error ''RPC_URL not configured in .env.local''), c1)
             else
               (case fetched of
                  Inr data \<Rightarrow> (Inr data, setCachedData cacheKey data now' c1)
                | Inl (Error message) \<Rightarrow>
                    (Inl (Error (''Failed to fetch wallet data: '' @ message)), c1)))"

section \<open>Withdrawals: \<open>withdrawFunds\<close>\<close>

record TransferResult =
  tr_success :: bool
  tr_txHash :: "string option"
  tr_error :: "string option"

text \<open>
  The outcomes of the awaited calls of one \<open>withdrawFunds\<close>: the construction of the
  wallet (its address), \<open>balanceOf\<close>, \<open>transfer\<close> (the hash of the submitted
  transaction) and the wait for the receipt raced against the 60 s timer (the status of
  the receipt). \<open>Inl\<close> is a throw or a rejection.
\<close>

record Chain =
  ch_wallet :: "error + string"
  ch_balanceOf :: "error + int"
  ch_transfer :: "error + string"
  ch_receipt :: "error + int"

text \<open>
  \<open>getTokenContract\<close>: it throws when the contract address is not configured, and
  otherwise answers the contract, which the model names by its address.
\<close>

definition getTokenContract :: "Env \<Rightarrow> error + string" where
  "getTokenContract env =
     (case TOKEN_CONTRACT_ADDRESS env of
        None \<Rightarrow> Inl (Error ''TOKEN_CONTRACT_ADDRESS not configured'')
      | Some address \<Rightarrow>
          if address = [] \<or> str_includes address ''your''
          then Inl (Error ''TOKEN_CONTRACT_ADDRESS not configured'')
          else Inr address)"

definition failure :: "string \<Rightarrow> TransferResult" where
  "failure message = \<lparr>tr_success = False, tr_txHash = None, tr_error = Some message\<rparr>"

text \<open>The \<open>catch\<close> block: \<open>error.message || 'Transaction failed'\<close>.\<close>

fun caught :: "error \<Rightarrow> TransferResult" where
  "caught (Error message) = failure (if message = [] then ''Transaction failed'' else message)"

text \<open>
  \<open>withdrawFunds\<close>. The result is the returned object, the list of the \<open>transfer\<close>
  calls made (recipient and amount in token units), and the balance cache after the
  call.
\<close>

definition withdrawFunds ::
  "(string \<Rightarrow> nat \<Rightarrow> error + int) \<Rightarrow> Env \<Rightarrow> Chain \<Rightarrow> string \<Rightarrow> string \<Rightarrow> WalletData cache
     \<Rightarrow> TransferResult \<times> (string \<times> int) list \<times> WalletData cache" where
  "withdrawFunds parseUnits env chain toAddress amount c =
     (if invalid_address toAddress then (failure ''Invalid recipient address'', [], c)
      else if not_configured (WALLET_PRIVATE_KEY env)
      then (failure ''Wallet private key not configured'', [], c)
      else
        (case ch_wallet chain of
           Inl e \<Rightarrow> (caught e, [], c)
         | Inr walletAddress \<Rightarrow>
        (case getTokenContract env of
           Inl e \<Rightarrow> (caught e, [], c)
         | Inr tokenContract \<Rightarrow>
        (case ch_balanceOf chain of
           Inl e \<Rightarrow> (caught e, [], c)
         | Inr balance \<Rightarrow>
        (case parseUnits amount 6 of
           Inl e \<Rightarrow> (caught e, [], c)
         | Inr amountInUnits \<Rightarrow>
             if balance < amountInUnits then (failure ''Insufficient balance'', [], c)
             else
               (case ch_transfer chain of
                  Inl e \<Rightarrow> (caught e, [(toAddress, amountInUnits)], c)
                | Inr hash \<Rightarrow>
               (case ch_receipt chain of
                  Inl e \<Rightarrow> (caught e, [(toAddress, amountInUnits)], c)
                | Inr status \<Rightarrow>
                    if status \<noteq> 1
                    then (caught (Error ''Transaction failed on-chain''),
                          [(toAddress, amountInUnits)], c)
                    else (\<lparr>tr_success = True, tr_txHash = Some hash, tr_error = None\<rparr>,
                          [(toAddress, amountInUnits)],
                          c(balance_cacheKey env walletAddress := None,
                            balance_cacheKey env toAddress := None)))))))))"

text \<open>
  \<open>ethers.parseUnits\<close> on a decimal string \<open>[-]digits[.digits]\<close>: the value in units of
  \<open>10^-decimals\<close>; it throws on any other string and on more fraction digits than
  \<open>decimals\<close>.
\<close>

definition parse_unsigned_units :: "string \<Rightarrow> nat \<Rightarrow> error + int" where
  "parse_unsigned_units s decimals =
     (let ip = takeWhile (\<lambda>ch. ch \<noteq> CHR ''.'') s;
          rest = dropWhile (\<lambda>ch. ch \<noteq> CHR ''.'') s;
          fp = (if rest = [] then [] else tl rest)
      in if ip = [] \<and> fp = [] then Inl (Error ''invalid FixedNumber string value'')
         else if decimals < length fp then Inl (Error ''too many decimals for format'')
         else (case (digits_val ip 0, digits_val fp 0) of
                 (Some a, Some b) \<Rightarrow>
                   Inr (int a * 10 ^ decimals + int b * 10 ^ (decimals - length fp))
               | _ \<Rightarrow> Inl (Error ''invalid FixedNumber string value'')))"

definition parseUnits_dec :: "string \<Rightarrow> nat \<Rightarrow> error + int" where
  "parseUnits_dec s decimals =
     (case s of
        [] \<Rightarrow> Inl (Error ''invalid FixedNumber string value'')
      | ch # cs \<Rightarrow>
          if ch = CHR ''-''
          then (case parse_unsigned_units cs decimals of Inl e \<Rightarrow> Inl e | Inr v \<Rightarrow> Inr (- v))
          else parse_unsigned_units s decimals)"

section \<open>Example data\<close>

definition ex_eth_tx :: Transaction where
  "ex_eth_tx = \<lparr>tx_hash = ''0xh0'', tx_from = ''0x1111'', tx_to = ''0xabcdef'',
      tx_value = ''1.5'', tx_timestamp = Some 1700000000000, tx_type = deposit,
      tx_tokenValue = ''0'', tx_asset = ETH\<rparr>"

definition ex_token_in :: Transaction where
  "ex_token_in = \<lparr>tx_hash = ''0xh1'', tx_from = ''0x1111'', tx_to = ''0xABCDEF'',
      tx_value = ''0'', tx_timestamp = Some 1700000100000, tx_type = deposit,
      tx_tokenValue = ''100.0'', tx_asset = TOKEN\<rparr>"

definition ex_token_out :: Transaction where
  "ex_token_out = \<lparr>tx_hash = ''0xh2'', tx_from = ''0xabcdef'', tx_to = ''0x2222'',
      tx_value = ''0'', tx_timestamp = Some 1700000200000, tx_type = withdraw,
      tx_tokenValue = ''50.0'', tx_asset = TOKEN\<rparr>"

text \<open>
  Token transfers of 0.1 and 0.2 received and of 0.3 sent: amounts whose sum the doubles
  round.
\<close>

definition ex_tenth_in :: Transaction where
  "ex_tenth_in = ex_token_in\<lparr>tx_tokenValue := ''0.1''\<rparr>"

definition ex_fifth_in :: Transaction where
  "ex_fifth_in = ex_token_in\<lparr>tx_tokenValue := ''0.2''\<rparr>"

definition ex_three_tenths_out :: Transaction where
  "ex_three_tenths_out = ex_token_out\<lparr>tx_tokenValue := ''0.3''\<rparr>"

definition ex_address :: string where
  "ex_address = ''0x52908400098527886E0F7030069857D2E4169EE7''"

definition ex_other :: string where
  "ex_other = ''0xde709f2102306220921060314715629080e2fb77''"

definition ex_env :: Env where
  "ex_env = \<lparr>ETHERSCAN_API_KEY = Some ''ABC123'', NEXT_PUBLIC_CHAIN_ID = Some ''1'',
     RPC_URL = Some ''https://rpc.example/v2/k'', WALLET_PRIVATE_KEY = Some ''0x01'',
     TOKEN_CONTRACT_ADDRESS = Some ''0xa0b8''\<rparr>"


definition ex_raw_token :: "nat \<Rightarrow> RawTx" where
  "ex_raw_token i = \<lparr>raw_hash = ''0xt'' @ show_nat i, raw_from = ex_address,
     raw_to = Some ex_other,
     raw_value = ''50000000'', raw_timeStamp = show_nat (1700000095 - 10 * i),
     raw_tokenDecimal = None\<rparr>"


definition ex_token :: "nat \<Rightarrow> Transaction" where
  "ex_token i = \<lparr>tx_hash = ''0xt'' @ show_nat i, tx_from = ex_address,
     tx_to = ex_other, tx_value = ''0'',
     tx_timestamp = Some ((1700000095 - 10 * int i) * 1000), tx_type = withdraw,
     tx_tokenValue = ''50.0'', tx_asset = TOKEN\<rparr>"


definition ex_tokenTxResponse :: Response where
  "ex_tokenTxResponse = \<lparr>resp_status = ''1'', resp_result = Some (map ex_raw_token [0..<2])\<rparr>"


text \<open>
  A native transaction that moves no ether (a contract call), as the ledger API lists
  it, with no token transfer beside it; and the transaction built from it.
\<close>

definition ex_raw_zero :: RawTx where
  "ex_raw_zero = \<lparr>raw_hash = ''0xz0'', raw_from = ex_address, raw_to = Some ex_other,
     raw_value = ''0'', raw_timeStamp = ''1700000000'', raw_tokenDecimal = None\<rparr>"

definition ex_zero_tx :: Transaction where
  "ex_zero_tx = \<lparr>tx_hash = ''0xz0'', tx_from = ex_address, tx_to = ex_other,
     tx_value = ''0.0'', tx_timestamp = Some 1700000000000, tx_type = withdraw,
     tx_tokenValue = ''0'', tx_asset = ETH\<rparr>"

definition ex_net_zero :: Net where
  "ex_net_zero = \<lparr>txlist = Inr \<lparr>resp_status = ''1'', resp_result = Some [ex_raw_zero]\<rparr>,
     tokentx = Inr \<lparr>resp_status = ''0'', resp_result = Some []\<rparr>\<rparr>"






text \<open>
  A wallet with no transaction at all, a wallet with one native transaction and two
  token transfers, and the clock readings of a call.
\<close>

definition ex_net_empty :: Net where
  "ex_net_empty = \<lparr>txlist = Inr \<lparr>resp_status = ''0'', resp_result = Some []\<rparr>,
     tokentx = Inr \<lparr>resp_status = ''0'', resp_result = Some []\<rparr>\<rparr>"

definition ex_net_small :: Net where
  "ex_net_small = \<lparr>txlist = Inr \<lparr>resp_status = ''1'', resp_result = Some [ex_raw_zero]\<rparr>,
     tokentx = Inr ex_tokenTxResponse\<rparr>"

definition ex_times :: Times where
  "ex_times = \<lparr>t_chart_read = 1700000100000, t_tx_read = 1700000100001,
     t_tx_write = 1700000100400, t_now = 1700000100401, t_chart_write = 1700000100402\<rparr>"

text \<open>
  A cached snapshot, an environment without an RPC endpoint, and the chain as a wallet
  holding 50 tokens (50000000 units) sees it.
\<close>

definition ex_wallet_data :: WalletData where
  "ex_wallet_data = \<lparr>wd_balance = ''1.5'', wd_portfolioValue = ''4550.00'',
     wd_profit = ''-50.00'', wd_profitPercent = Some (- 50), wd_tokenBalance = ''50.0'',
     wd_transactions = [ex_token 0], wd_ethPrice = 3000\<rparr>"

definition ex_env_norpc :: Env where
  "ex_env_norpc = ex_env\<lparr>RPC_URL := None\<rparr>"

definition ex_chain :: Chain where
  "ex_chain = \<lparr>ch_wallet = Inr ex_address, ch_balanceOf = Inr 50000000,
     ch_transfer = Inr ''0xfeed'', ch_receipt = Inr 1\<rparr>"

section \<open>Cache: read after write\<close>

text \<open>
  Claim C4. A \<open>getCachedData\<close> at the very time of the \<open>setCachedData\<close>, and at any
  later time less than 60000 ms after it, returns the stored value and leaves the cache
  as the write left it; a \<open>getCachedData\<close> 60000 ms or more after the write returns
  \<open>null\<close> and the key is gone from the cache afterwards.
\<close>

theorem cache_get_after_set:
  "getCachedData key now (setCachedData key v now c) = (Some v, setCachedData key v now c)
   \<and> (now' - now < 60000 \<longrightarrow>
        getCachedData key now' (setCachedData key v now c)
          = (Some v, setCachedData key v now c))
   \<and> (now' - now \<ge> 60000 \<longrightarrow>
        fst (getCachedData key now' (setCachedData key v now c)) = None
        \<and> snd (getCachedData key now' (setCachedData key v now c)) key = None)"
  by (simp add: getCachedData_def setCachedData_def CACHE_DURATION_def)

theorem cache_get_after_set_witness:
  "(1000 + 59999 - 1000 < (60000::int))
   \<and> getCachedData ''k'' (1000 + 59999) (setCachedData ''k'' (7::nat) 1000 Map.empty)
       = (Some 7, setCachedData ''k'' 7 1000 Map.empty)
   \<and> (1000 + 60000 - 1000 \<ge> (60000::int))
   \<and> fst (getCachedData ''k'' (1000 + 60000) (setCachedData ''k'' (7::nat) 1000 Map.empty)) = None
   \<and> snd (getCachedData ''k'' (1000 + 60000) (setCachedData ''k'' (7::nat) 1000 Map.empty)) ''k'' = None"
  using cache_get_after_set [of "''k''" 1000 "7::nat" Map.empty "1000 + 59999"]
        cache_get_after_set [of "''k''" 1000 "7::nat" Map.empty "1000 + 60000"]
  by simp

section \<open>Profit and loss\<close>

lemma profit_loop_folds:
  "profit_loop ar pf pk txs (a, b) =
     (foldl (n_add ar) a (map (token_amount ar pf) (filter (received_by pk) txs)),
      foldl (n_add ar) b (map (token_amount ar pf) (filter (\<lambda>tx. \<not> received_by pk tx) txs)))"
  by (induction txs arbitrary: a b) (simp_all add: token_amount_def received_by_def Let_def)

lemma calculate_eq_spec:
  "calculateTokenProfitLoss ar pf txs bal addr = spec_profit_loss ar pf txs bal addr"
  by (simp add: calculateTokenProfitLoss_def spec_profit_loss_def profit_loop_folds
        spec_totalIn_def spec_totalOut_def sum_in_order_def token_transfers_def Let_def)

text \<open>
  Claim C1. \<open>calculateTokenProfitLoss\<close> computes the profit/loss rule of the
  specification in the arithmetic of the code, whatever that arithmetic is: it keeps
  the token transfers; with none it answers profit 0 and percentage 0; otherwise, with
  \<open>invested = totalIn - totalOut\<close>, it answers the current balance and 100 (or 0 when
  \<open>invested\<close> is not below 0) if \<open>invested <= 0\<close>, and else \<open>current - invested\<close> and
  \<open>profit / invested * 100\<close>. With totals 100 and 0 and balance 80 the answer is -20
  and -20, and with totals 0 and 50 and balance 10 it is 10 and 100, in every
  arithmetic that computes \<open>100 - 0\<close>, \<open>80 - 100\<close>, \<open>-20 / 100 * 100\<close>, \<open>0 - 50\<close> and
  the comparisons with 0 as the doubles do.
\<close>

theorem profit_loss_rule:
  "calculateTokenProfitLoss ar pf txs bal addr = spec_profit_loss ar pf txs bal addr
   \<and> (token_transfers txs \<noteq> []
        \<and> spec_totalIn ar pf addr txs = n_lit ar 100
        \<and> spec_totalOut ar pf addr txs = n_lit ar 0
        \<and> pf bal = n_lit ar 80
        \<and> n_sub ar (n_lit ar 100) (n_lit ar 0) = n_lit ar 100
        \<and> \<not> n_le ar (n_lit ar 100) (n_lit ar 0)
        \<and> n_sub ar (n_lit ar 80) (n_lit ar 100) = n_lit ar (- 20)
        \<and> n_mul ar (n_div ar (n_lit ar (- 20)) (n_lit ar 100)) (n_lit ar 100) = n_lit ar (- 20)
        \<longrightarrow> calculateTokenProfitLoss ar pf txs bal addr
              = \<lparr>profit = n_lit ar (- 20), profitPercent = n_lit ar (- 20)\<rparr>)
   \<and> (token_transfers txs \<noteq> []
        \<and> spec_totalIn ar pf addr txs = n_lit ar 0
        \<and> spec_totalOut ar pf addr txs = n_lit ar 50
        \<and> pf bal = n_lit ar 10
        \<and> n_sub ar (n_lit ar 0) (n_lit ar 50) = n_lit ar (- 50)
        \<and> n_le ar (n_lit ar (- 50)) (n_lit ar 0)
        \<and> n_less ar (n_lit ar (- 50)) (n_lit ar 0)
        \<longrightarrow> calculateTokenProfitLoss ar pf txs bal addr
              = \<lparr>profit = n_lit ar 10, profitPercent = n_lit ar 100\<rparr>)"
  by (simp add: calculate_eq_spec spec_profit_loss_def Let_def)

subsection \<open>The examples in the arithmetic of doubles\<close>

lemma round64_finite:
  assumes "x \<noteq> 0" and "exp_search \<bar>x\<bar> (- 1074) 12 = e" and "max (e - 52) (- 1074) = q"
    and "round_half_even (\<bar>x\<bar> / 2 powi q) = r" and "of_int r * 2 powi q < (2::real) powi 1024"
  shows "round64 x = Num (if x < 0 then - (of_int r * 2 powi q) else of_int r * 2 powi q)"
  using assms unfolding round64_def Let_def by (simp only: if_False not_le [symmetric])

lemmas round64_eval = exp_search.simps round_half_even_def Let_def power_int_minus

lemma round64_0: "round64 0 = Num 0"
  by (simp add: round64_def)

lemma round64_100: "round64 100 = Num 100"
proof -
  have "round64 100 = Num (if (100::real) < 0 then - (of_int 7036874417766400 * 2 powi (- 46))
      else of_int 7036874417766400 * 2 powi (- 46))"
    by (rule round64_finite [where e = 6]) (simp_all add: round64_eval)
  then show ?thesis by (simp add: power_int_minus)
qed

lemma round64_80: "round64 80 = Num 80"
proof -
  have "round64 80 = Num (if (80::real) < 0 then - (of_int 5629499534213120 * 2 powi (- 46))
      else of_int 5629499534213120 * 2 powi (- 46))"
    by (rule round64_finite [where e = 6]) (simp_all add: round64_eval)
  then show ?thesis by (simp add: power_int_minus)
qed

lemma round64_50: "round64 50 = Num 50"
proof -
  have "round64 50 = Num (if (50::real) < 0 then - (of_int 7036874417766400 * 2 powi (- 47))
      else of_int 7036874417766400 * 2 powi (- 47))"
    by (rule round64_finite [where e = 5]) (simp_all add: round64_eval)
  then show ?thesis by (simp add: power_int_minus)
qed

lemma round64_10: "round64 10 = Num 10"
proof -
  have "round64 10 = Num (if (10::real) < 0 then - (of_int 5629499534213120 * 2 powi (- 49))
      else of_int 5629499534213120 * 2 powi (- 49))"
    by (rule round64_finite [where e = 3]) (simp_all add: round64_eval)
  then show ?thesis by (simp add: power_int_minus)
qed

lemma round64_minus_20: "round64 (- 20) = Num (- 20)"
proof -
  have "round64 (- 20) = Num (if (- 20::real) < 0 then - (of_int 5629499534213120 * 2 powi (- 48))
      else of_int 5629499534213120 * 2 powi (- 48))"
    by (rule round64_finite [where e = 4]) (simp_all add: round64_eval)
  then show ?thesis by (simp add: power_int_minus)
qed

lemma round64_minus_50: "round64 (- 50) = Num (- 50)"
proof -
  have "round64 (- 50) = Num (if (- 50::real) < 0 then - (of_int 7036874417766400 * 2 powi (- 47))
      else of_int 7036874417766400 * 2 powi (- 47))"
    by (rule round64_finite [where e = 5]) (simp_all add: round64_eval)
  then show ?thesis by (simp add: power_int_minus)
qed

text \<open>\<open>-20 / 100\<close> is not a double: the quotient is the double next to \<open>-0.2\<close>.\<close>

lemma round64_minus_fifth:
  "round64 (- 20 / 100) = Num (- 3602879701896397 / 18014398509481984)"
proof -
  have "round64 (- 20 / 100) = Num (if (- 20 / 100 :: real) < 0
      then - (of_int 7205759403792794 * 2 powi (- 55))
      else of_int 7205759403792794 * 2 powi (- 55))"
    by (rule round64_finite [where e = "- 3"]) (simp_all add: round64_eval)
  then show ?thesis by (simp add: power_int_minus)
qed

lemma round64_times_100:
  "round64 (- 3602879701896397 / 18014398509481984 * 100) = Num (- 20)"
proof -
  have "round64 (- 3602879701896397 / 18014398509481984 * 100)
      = Num (if (- 3602879701896397 / 18014398509481984 * 100 :: real) < 0
             then - (of_int 5629499534213120 * 2 powi (- 48))
             else of_int 5629499534213120 * 2 powi (- 48))"
    by (rule round64_finite [where e = 4]) (simp_all add: round64_eval)
  then show ?thesis by (simp add: power_int_minus)
qed

lemmas ex_defs = ex_eth_tx_def ex_token_in_def ex_token_out_def

lemmas dec_defs = parseFloat_dec_def parse_unsigned_dec_def digit_val_def

lemmas lower_defs = toLowerCase_def toLowerChar_def

lemmas round64_values = round64_0 round64_100 round64_80 round64_50 round64_10
  round64_minus_20 round64_minus_50

lemma binary64_literals:
  "n_lit binary64 0 = Num 0" "n_lit binary64 100 = Num 100" "n_lit binary64 80 = Num 80"
  "n_lit binary64 50 = Num 50" "n_lit binary64 10 = Num 10"
  "n_lit binary64 (- 20) = Num (- 20)" "n_lit binary64 (- 50) = Num (- 50)"
  by (simp_all add: binary64_def round64_values)

lemma binary64_ops:
  "n_add binary64 = number_add" "n_sub binary64 = number_sub" "n_mul binary64 = number_mul"
  "n_div binary64 = number_div" "n_le binary64 = number_le" "n_less binary64 = number_less"
  "n_truthy binary64 = number_truthy"
  by (simp_all add: binary64_def)

lemma parseFloat64_values:
  "parseFloat64 ''100.0'' = Num 100" "parseFloat64 ''80.0'' = Num 80"
  "parseFloat64 ''50.0'' = Num 50" "parseFloat64 ''10.0'' = Num 10"
  "parseFloat64 ''0'' = Num 0"
  by (simp_all add: parseFloat64_def dec_defs round64_values)

lemma binary64_first_example:
  "n_sub binary64 (n_lit binary64 100) (n_lit binary64 0) = n_lit binary64 100"
  "\<not> n_le binary64 (n_lit binary64 100) (n_lit binary64 0)"
  "n_sub binary64 (n_lit binary64 80) (n_lit binary64 100) = n_lit binary64 (- 20)"
  "n_mul binary64 (n_div binary64 (n_lit binary64 (- 20)) (n_lit binary64 100)) (n_lit binary64 100)
     = n_lit binary64 (- 20)"
proof -
  show "n_sub binary64 (n_lit binary64 100) (n_lit binary64 0) = n_lit binary64 100"
    by (simp add: binary64_literals binary64_ops number_sub_def round64_values)
  show "\<not> n_le binary64 (n_lit binary64 100) (n_lit binary64 0)"
    by (simp add: binary64_literals binary64_ops)
  show "n_sub binary64 (n_lit binary64 80) (n_lit binary64 100) = n_lit binary64 (- 20)"
    by (simp add: binary64_literals binary64_ops number_sub_def round64_values)
  have d: "number_div (Num (- 20)) (Num 100) = Num (- 3602879701896397 / 18014398509481984)"
    using round64_minus_fifth by simp
  have m: "number_mul (Num (- 3602879701896397 / 18014398509481984)) (Num 100) = Num (- 20)"
    using round64_times_100 by simp
  show "n_mul binary64 (n_div binary64 (n_lit binary64 (- 20)) (n_lit binary64 100))
      (n_lit binary64 100) = n_lit binary64 (- 20)"
    by (simp only: binary64_literals binary64_ops d m)
qed

lemma binary64_second_example:
  "n_sub binary64 (n_lit binary64 0) (n_lit binary64 50) = n_lit binary64 (- 50)"
  "n_le binary64 (n_lit binary64 (- 50)) (n_lit binary64 0)"
  "n_less binary64 (n_lit binary64 (- 50)) (n_lit binary64 0)"
  by (simp_all add: binary64_literals binary64_ops number_sub_def round64_values)

theorem profit_loss_rule_witness:
  "token_transfers [ex_eth_tx, ex_token_in] \<noteq> []
   \<and> spec_totalIn binary64 parseFloat64 ''0xabcdef'' [ex_eth_tx, ex_token_in] = n_lit binary64 100
   \<and> spec_totalOut binary64 parseFloat64 ''0xabcdef'' [ex_eth_tx, ex_token_in] = n_lit binary64 0
   \<and> parseFloat64 ''80.0'' = n_lit binary64 80
   \<and> n_sub binary64 (n_lit binary64 100) (n_lit binary64 0) = n_lit binary64 100
   \<and> \<not> n_le binary64 (n_lit binary64 100) (n_lit binary64 0)
   \<and> n_sub binary64 (n_lit binary64 80) (n_lit binary64 100) = n_lit binary64 (- 20)
   \<and> n_mul binary64 (n_div binary64 (n_lit binary64 (- 20)) (n_lit binary64 100))
        (n_lit binary64 100) = n_lit binary64 (- 20)
   \<and> calculateTokenProfitLoss binary64 parseFloat64 [ex_eth_tx, ex_token_in] ''80.0'' ''0xabcdef''
       = \<lparr>profit = Num (- 20), profitPercent = Num (- 20)\<rparr>
   \<and> token_transfers [ex_token_out, ex_eth_tx] \<noteq> []
   \<and> spec_totalIn binary64 parseFloat64 ''0xabcdef'' [ex_token_out, ex_eth_tx] = n_lit binary64 0
   \<and> spec_totalOut binary64 parseFloat64 ''0xabcdef'' [ex_token_out, ex_eth_tx] = n_lit binary64 50
   \<and> parseFloat64 ''10.0'' = n_lit binary64 10
   \<and> n_sub binary64 (n_lit binary64 0) (n_lit binary64 50) = n_lit binary64 (- 50)
   \<and> n_le binary64 (n_lit binary64 (- 50)) (n_lit binary64 0)
   \<and> n_less binary64 (n_lit binary64 (- 50)) (n_lit binary64 0)
   \<and> calculateTokenProfitLoss binary64 parseFloat64 [ex_token_out, ex_eth_tx] ''10.0'' ''0xabcdef''
       = \<lparr>profit = Num 10, profitPercent = Num 100\<rparr>"
proof -
  have n1: "token_transfers [ex_eth_tx, ex_token_in] \<noteq> []"
    and n2: "token_transfers [ex_token_out, ex_eth_tx] \<noteq> []"
    by (simp_all add: token_transfers_def ex_defs)
  have a: "spec_totalIn binary64 parseFloat64 ''0xabcdef'' [ex_eth_tx, ex_token_in]
      = n_lit binary64 100"
    by (simp add: spec_totalIn_def sum_in_order_def token_transfers_def received_by_def
          token_amount_def or_literal_zero_def lower_defs ex_defs binary64_literals
          binary64_ops parseFloat64_values round64_values)
  have b: "spec_totalOut binary64 parseFloat64 ''0xabcdef'' [ex_eth_tx, ex_token_in]
      = n_lit binary64 0"
    by (simp add: spec_totalOut_def sum_in_order_def token_transfers_def received_by_def
          token_amount_def or_literal_zero_def lower_defs ex_defs binary64_literals
          binary64_ops parseFloat64_values round64_values)
  have c: "parseFloat64 ''80.0'' = n_lit binary64 80"
    by (simp add: binary64_literals parseFloat64_values)
  have d: "spec_totalIn binary64 parseFloat64 ''0xabcdef'' [ex_token_out, ex_eth_tx]
      = n_lit binary64 0"
    by (simp add: spec_totalIn_def sum_in_order_def token_transfers_def received_by_def
          token_amount_def or_literal_zero_def lower_defs ex_defs binary64_literals
          binary64_ops parseFloat64_values round64_values)
  have e: "spec_totalOut binary64 parseFloat64 ''0xabcdef'' [ex_token_out, ex_eth_tx]
      = n_lit binary64 50"
    by (simp add: spec_totalOut_def sum_in_order_def token_transfers_def received_by_def
          token_amount_def or_literal_zero_def lower_defs ex_defs binary64_literals
          binary64_ops parseFloat64_values round64_values)
  have f: "parseFloat64 ''10.0'' = n_lit binary64 10"
    by (simp add: binary64_literals parseFloat64_values)
  have g: "calculateTokenProfitLoss binary64 parseFloat64 [ex_eth_tx, ex_token_in] ''80.0''
      ''0xabcdef'' = \<lparr>profit = n_lit binary64 (- 20), profitPercent = n_lit binary64 (- 20)\<rparr>"
    using n1 a b c binary64_first_example
      profit_loss_rule [of binary64 parseFloat64 "[ex_eth_tx, ex_token_in]" "''80.0''"
        "''0xabcdef''"]
    by blast
  have h: "calculateTokenProfitLoss binary64 parseFloat64 [ex_token_out, ex_eth_tx] ''10.0''
      ''0xabcdef'' = \<lparr>profit = n_lit binary64 10, profitPercent = n_lit binary64 100\<rparr>"
    using n2 d e f binary64_second_example
      profit_loss_rule [of binary64 parseFloat64 "[ex_token_out, ex_eth_tx]" "''10.0''"
        "''0xabcdef''"]
    by blast
  show ?thesis
    using n1 n2 a b c d e f g h binary64_first_example binary64_second_example
    by (simp add: binary64_literals)
qed

subsection \<open>Sums that the doubles round\<close>

text \<open>
  With 0.1 and 0.2 received and 0.3 sent the exact sums would leave \<open>invested = 0\<close>;
  the doubles leave \<open>invested = 2^-54\<close>, above zero, so that the last branch is taken
  and the percentage is 18014398509481984000. The model follows the doubles.
\<close>

lemma round64_tenth:
  "round64 (1 / 10)
     = Num (3602879701896397 / 36028797018963968)"
proof -
  have "round64 (1 / 10) = Num (if (1 / 10 :: real) < 0
      then - (of_int 7205759403792794 * 2 powi (- 56))
      else of_int 7205759403792794 * 2 powi (- 56))"
    by (rule round64_finite [where e = "- 4"]) (simp_all add: round64_eval)
  then show ?thesis by (simp add: power_int_minus)
qed

lemma round64_fifth:
  "round64 (1 / 5)
     = Num (3602879701896397 / 18014398509481984)"
proof -
  have "round64 (1 / 5) = Num (if (1 / 5 :: real) < 0
      then - (of_int 7205759403792794 * 2 powi (- 55))
      else of_int 7205759403792794 * 2 powi (- 55))"
    by (rule round64_finite [where e = "- 3"]) (simp_all add: round64_eval)
  then show ?thesis by (simp add: power_int_minus)
qed

lemma round64_three_tenths:
  "round64 (3 / 10)
     = Num (5404319552844595 / 18014398509481984)"
proof -
  have "round64 (3 / 10) = Num (if (3 / 10 :: real) < 0
      then - (of_int 5404319552844595 * 2 powi (- 54))
      else of_int 5404319552844595 * 2 powi (- 54))"
    by (rule round64_finite [where e = "- 2"]) (simp_all add: round64_eval)
  then show ?thesis by (simp add: power_int_minus)
qed

lemma round64_tenth_again:
  "round64 (0 + 3602879701896397 / 36028797018963968)
     = Num (3602879701896397 / 36028797018963968)"
proof -
  have "round64 (0 + 3602879701896397 / 36028797018963968) = Num (if (0 + 3602879701896397 / 36028797018963968 :: real) < 0
      then - (of_int 7205759403792794 * 2 powi (- 56))
      else of_int 7205759403792794 * 2 powi (- 56))"
    by (rule round64_finite [where e = "- 4"]) (simp_all add: round64_eval)
  then show ?thesis by (simp add: power_int_minus)
qed

lemma round64_tenth_plus_fifth:
  "round64 (3602879701896397 / 36028797018963968 + 3602879701896397 / 18014398509481984)
     = Num (1351079888211149 / 4503599627370496)"
proof -
  have "round64 (3602879701896397 / 36028797018963968 + 3602879701896397 / 18014398509481984) = Num (if (3602879701896397 / 36028797018963968 + 3602879701896397 / 18014398509481984 :: real) < 0
      then - (of_int 5404319552844596 * 2 powi (- 54))
      else of_int 5404319552844596 * 2 powi (- 54))"
    by (rule round64_finite [where e = "- 2"]) (simp_all add: round64_eval)
  then show ?thesis by (simp add: power_int_minus)
qed

lemma round64_three_tenths_again:
  "round64 (0 + 5404319552844595 / 18014398509481984)
     = Num (5404319552844595 / 18014398509481984)"
proof -
  have "round64 (0 + 5404319552844595 / 18014398509481984) = Num (if (0 + 5404319552844595 / 18014398509481984 :: real) < 0
      then - (of_int 5404319552844595 * 2 powi (- 54))
      else of_int 5404319552844595 * 2 powi (- 54))"
    by (rule round64_finite [where e = "- 2"]) (simp_all add: round64_eval)
  then show ?thesis by (simp add: power_int_minus)
qed

lemma round64_invested:
  "round64 (1351079888211149 / 4503599627370496 + - (5404319552844595 / 18014398509481984))
     = Num (1 / 18014398509481984)"
proof -
  have "round64 (1351079888211149 / 4503599627370496 + - (5404319552844595 / 18014398509481984)) = Num (if (1351079888211149 / 4503599627370496 + - (5404319552844595 / 18014398509481984) :: real) < 0
      then - (of_int 4503599627370496 * 2 powi (- 106))
      else of_int 4503599627370496 * 2 powi (- 106))"
    by (rule round64_finite [where e = "- 54"]) (simp_all add: round64_eval)
  then show ?thesis by (simp add: power_int_minus)
qed

lemma round64_profit:
  "round64 (10 + - (1 / 18014398509481984))
     = Num (10)"
proof -
  have "round64 (10 + - (1 / 18014398509481984)) = Num (if (10 + - (1 / 18014398509481984) :: real) < 0
      then - (of_int 5629499534213120 * 2 powi (- 49))
      else of_int 5629499534213120 * 2 powi (- 49))"
    by (rule round64_finite [where e = 3]) (simp_all add: round64_eval)
  then show ?thesis by (simp add: power_int_minus)
qed

lemma round64_quotient:
  "round64 (10 / (1 / 18014398509481984))
     = Num (180143985094819840)"
proof -
  have "round64 (10 / (1 / 18014398509481984)) = Num (if (10 / (1 / 18014398509481984) :: real) < 0
      then - (of_int 5629499534213120 * 2 powi 5)
      else of_int 5629499534213120 * 2 powi 5)"
    by (rule round64_finite [where e = 57]) (simp_all add: round64_eval)
  then show ?thesis by (simp add: power_int_minus)
qed

lemma round64_percent:
  "round64 (180143985094819840 * 100)
     = Num (18014398509481984000)"
proof -
  have "round64 (180143985094819840 * 100) = Num (if (180143985094819840 * 100 :: real) < 0
      then - (of_int 8796093022208000 * 2 powi 11)
      else of_int 8796093022208000 * 2 powi 11)"
    by (rule round64_finite [where e = 63]) (simp_all add: round64_eval)
  then show ?thesis by (simp add: power_int_minus)
qed


lemma doubles_round_the_sums:
  "calculateTokenProfitLoss binary64 parseFloat64
     [ex_tenth_in, ex_fifth_in, ex_three_tenths_out] ''10.0'' ''0xabcdef''
     = \<lparr>profit = Num 10, profitPercent = Num 18014398509481984000\<rparr>"
proof -
  let ?txs = "[ex_tenth_in, ex_fifth_in, ex_three_tenths_out]"
  have p1: "parseFloat64 ''0.1'' = Num (3602879701896397 / 36028797018963968)"
    using round64_tenth by (simp add: parseFloat64_def dec_defs)
  have p2: "parseFloat64 ''0.2'' = Num (3602879701896397 / 18014398509481984)"
    using round64_fifth by (simp add: parseFloat64_def dec_defs)
  have p3: "parseFloat64 ''0.3'' = Num (5404319552844595 / 18014398509481984)"
    using round64_three_tenths by (simp add: parseFloat64_def dec_defs)
  have tk: "token_transfers ?txs = ?txs"
    by (simp add: token_transfers_def ex_tenth_in_def ex_fifth_in_def ex_three_tenths_out_def
          ex_defs)
  have ins: "map (token_amount binary64 parseFloat64)
        (filter (received_by ''0xabcdef'') (token_transfers ?txs))
      = [Num (3602879701896397 / 36028797018963968), Num (3602879701896397 / 18014398509481984)]"
    by (simp add: token_transfers_def received_by_def token_amount_def or_literal_zero_def
          lower_defs
          ex_tenth_in_def ex_fifth_in_def ex_three_tenths_out_def ex_defs p1 p2 p3 binary64_ops)
  have outs: "map (token_amount binary64 parseFloat64)
        (filter (\<lambda>tx. \<not> received_by ''0xabcdef'' tx) (token_transfers ?txs))
      = [Num (5404319552844595 / 18014398509481984)]"
    by (simp add: token_transfers_def received_by_def token_amount_def or_literal_zero_def
          lower_defs
          ex_tenth_in_def ex_fifth_in_def ex_three_tenths_out_def ex_defs p1 p2 p3 binary64_ops)
  have a1: "number_add (Num 0) (Num (3602879701896397 / 36028797018963968))
      = Num (3602879701896397 / 36028797018963968)"
    using round64_tenth_again by simp
  have a2: "number_add (Num (3602879701896397 / 36028797018963968))
        (Num (3602879701896397 / 18014398509481984))
      = Num (1351079888211149 / 4503599627370496)"
    using round64_tenth_plus_fifth by simp
  have a3: "number_add (Num 0) (Num (5404319552844595 / 18014398509481984))
      = Num (5404319552844595 / 18014398509481984)"
    using round64_three_tenths_again by simp
  have totalIn: "spec_totalIn binary64 parseFloat64 ''0xabcdef'' ?txs
      = Num (1351079888211149 / 4503599627370496)"
    by (simp only: spec_totalIn_def sum_in_order_def ins foldl.simps binary64_ops
          binary64_literals a1 a2)
  have totalOut: "spec_totalOut binary64 parseFloat64 ''0xabcdef'' ?txs
      = Num (5404319552844595 / 18014398509481984)"
    by (simp only: spec_totalOut_def sum_in_order_def outs foldl.simps binary64_ops
          binary64_literals a3)
  have invested: "number_sub (Num (1351079888211149 / 4503599627370496))
        (Num (5404319552844595 / 18014398509481984))
      = Num (1 / 18014398509481984)"
    using round64_invested by (simp add: number_sub_def)
  have above: "\<not> number_le (Num (1 / 18014398509481984)) (Num 0)"
    by simp
  have pr: "number_sub (Num 10) (Num (1 / 18014398509481984)) = Num 10"
    using round64_profit by (simp add: number_sub_def)
  have dv: "number_div (Num 10) (Num (1 / 18014398509481984)) = Num 180143985094819840"
    using round64_quotient by simp
  have ml: "number_mul (Num 180143985094819840) (Num 100) = Num 18014398509481984000"
    using round64_percent by simp
  have ne: "token_transfers ?txs \<noteq> []"
    by (simp add: tk)
  have cur: "parseFloat64 ''10.0'' = Num 10"
    by (rule parseFloat64_values)
  show ?thesis
    unfolding calculate_eq_spec spec_profit_loss_def Let_def
    by (simp only: ne if_False totalIn totalOut cur binary64_ops binary64_literals invested
          above pr dv ml)
qed

section \<open>The transfer history\<close>

subsection \<open>The sort\<close>
















subsection \<open>Building the records\<close>








lemma getCachedData_miss:
  "fst (getCachedData key now c) = None \<Longrightarrow> snd (getCachedData key now c) = c(key := None)"
  by (simp add: getCachedData_def split: option.splits if_splits)

lemma getCachedData_hit:
  "fst (getCachedData key now c) = Some v \<Longrightarrow> snd (getCachedData key now c) = c"
  by (simp add: getCachedData_def split: option.splits if_splits)

lemma getTransactionHistory_fetch:
  assumes "fst (getCachedData (tx_cacheKey env pk) now c) = None"
    and "\<not> not_configured (ETHERSCAN_API_KEY env)"
  shows "getTransactionHistory lib env net now now' pk dec c =
     (case fetch_transactions lib net pk dec of
        Inr txs \<Rightarrow> (Inr (take 30 txs),
          setCachedData (tx_cacheKey env pk) (take 30 txs) now' (c(tx_cacheKey env pk := None)))
      | Inl e \<Rightarrow> (Inr [], c(tx_cacheKey env pk := None)))"
  using assms getCachedData_miss [of "tx_cacheKey env pk" now c]
  by (cases "getCachedData (tx_cacheKey env pk) now c")
     (auto simp: getTransactionHistory_def Let_def split: sum.splits option.splits)

subsection \<open>Caps, merge, sort and cache\<close>


lemmas fmt_defs = formatEther_dec_def formatUnits_dec_def format_units_def trim_zeros_def
  parse_nat_def digit_val_def digit_char_def show_nat.simps show_padded.simps

lemma ex_configured: "\<not> not_configured (ETHERSCAN_API_KEY ex_env)"
  by (simp add: not_configured_def ex_env_def startsWith_def)

lemma ex_tx_miss:
  "fst (getCachedData (tx_cacheKey env pk) t (Map.empty :: Transaction list cache)) = None"
  by (simp add: getCachedData_def)

lemma ex_direction_out: "direction ex_other ex_address = withdraw"
  by (simp add: direction_def ex_address_def ex_other_def lower_defs)

lemma ex_zero_built: "eth_transaction lib_dec ex_address ex_raw_zero = Inr ex_zero_tx"
  by (simp add: eth_transaction_def lib_dec_def ex_raw_zero_def ex_zero_tx_def
        ms_timestamp_def parseInt_dec_def fmt_defs ex_direction_out)



lemma ex_lists:
  "[0..<10] = [0, 1, 2, 3, 4, 5, 6, 7, 8, 9::nat]"
  "[0..<11] = [0, 1, 2, 3, 4, 5, 6, 7, 8, 9, 10::nat]"
  "[0..<2] = [0, 1::nat]"
  by (simp_all add: upt_rec)


lemma ex_token_built:
  "map_err (token_transaction lib_dec ex_address 6) (accepted ex_tokenTxResponse 20)
     = Inr (map ex_token [0..<2])"
proof -
  have fu: "formatUnits_dec ''50000000'' (UnitDecimals 6) = Inr ''50.0''"
    by (simp add: fmt_defs)
  show ?thesis
    by (simp add: accepted_def ex_tokenTxResponse_def ex_lists token_transaction_def lib_dec_def
          ex_raw_token_def ex_token_def ms_timestamp_def parseInt_dec_def
          token_unit_def parse_nat_def digit_val_def digit_char_def show_nat.simps fu
          ex_direction_out)
qed


subsection \<open>The amounts of a constructed record\<close>











lemma ex_zero_history_any:
  "fst (getTransactionHistory lib_dec ex_env ex_net_zero t t' ex_address 6 Map.empty)
     = Inr [ex_zero_tx]"
proof -
  have "fetch_transactions lib_dec ex_net_zero ex_address 6
      = Inr (array_sort lib_dec compare_desc ([ex_zero_tx] @ []))"
    by (simp add: fetch_transactions_def ex_net_zero_def accepted_def ex_zero_built)
  then have "fetch_transactions lib_dec ex_net_zero ex_address 6 = Inr [ex_zero_tx]"
    by (simp add: lib_dec_def stable_sort_def)
  then show ?thesis
    by (simp add: getTransactionHistory_fetch [OF ex_tx_miss ex_configured])
qed




lemma ex_small_history:
  "fst (getTransactionHistory lib_dec ex_env ex_net_small t t' ex_address 6 Map.empty)
     = Inr [ex_token 0, ex_token 1, ex_zero_tx]"
proof -
  have k: "map_err (token_transaction lib_dec ex_address 6) (map ex_raw_token [0..<2])
      = Inr (map ex_token [0..<2])"
    using ex_token_built by (simp add: accepted_def ex_tokenTxResponse_def)
  have s: "stable_sort compare_desc ([ex_zero_tx] @ [ex_token 0, ex_token 1])
      = [ex_token 0, ex_token 1, ex_zero_tx]"
    by (simp add: stable_sort_def compare_desc_def cmp_greater_def ex_zero_tx_def ex_token_def)
  have "fetch_transactions lib_dec ex_net_small ex_address 6
      = Inr (array_sort lib_dec compare_desc ([ex_zero_tx] @ map ex_token [0..<2]))"
    using k
    by (simp add: fetch_transactions_def ex_net_small_def accepted_def ex_tokenTxResponse_def
          ex_zero_built)
  then have "fetch_transactions lib_dec ex_net_small ex_address 6
      = Inr [ex_token 0, ex_token 1, ex_zero_tx]"
    using s by (simp add: lib_dec_def ex_lists)
  then show ?thesis
    by (simp add: getTransactionHistory_fetch [OF ex_tx_miss ex_configured])
qed


subsection \<open>No throw leaves the function\<close>






section \<open>The chart series\<close>

lemma range_of_pos: "0 < range_of period"
  by (simp add: range_of_def ranges_def)

lemma interval_count_pos: "0 < interval_count period"
  by (simp add: interval_count_def)

lemma length_generateEmptyChart:
  "length (generateEmptyChart period now) = interval_count period"
  by (simp add: generateEmptyChart_def Let_def)

lemma length_chart_loop: "length (chart_loop point n) = n + 1"
  by (induction n) simp_all

lemma set_chart_loop: "set (chart_loop point n) = point ` {..n}"
  by (induction n) (auto simp: atMost_Suc)

lemma sorted_chart_loop:
  assumes "\<And>i j. i < j \<Longrightarrow> cp_timestamp (point j) < cp_timestamp (point i)"
  shows "sorted_wrt (\<lambda>a b. cp_timestamp a < cp_timestamp b) (chart_loop point n)"
proof (induction n)
  case 0
  show ?case by simp
next
  case (Suc n)
  have "\<forall>p \<in> set (chart_loop point n). cp_timestamp (point (Suc n)) < cp_timestamp p"
    using assms by (auto simp: set_chart_loop)
  with Suc show ?case by simp
qed

lemma chart_point_timestamp_mono:
  assumes "0 < timeRange" "0 < intervals" "i < j"
  shows "cp_timestamp (chart_point pf txs now timeRange intervals j)
       < cp_timestamp (chart_point pf txs now timeRange intervals i)"
proof -
  have "real i * timeRange < real j * timeRange"
    using assms by simp
  then have "real i * timeRange / real intervals < real j * timeRange / real intervals"
    using assms by (simp add: divide_strict_right_mono)
  then show ?thesis by (simp add: chart_point_def Let_def)
qed

lemma series_ok_replay:
  "series_ok (chart_loop (chart_point pf txs now (range_of period) (interval_count period)) n)"
proof -
  have "sorted_wrt (\<lambda>a b. cp_timestamp a < cp_timestamp b)
      (chart_loop (chart_point pf txs now (range_of period) (interval_count period)) n)"
    by (rule sorted_chart_loop)
       (rule chart_point_timestamp_mono [OF range_of_pos interval_count_pos])
  moreover have "list_all (\<lambda>p. 0 \<le> cp_value p)
      (chart_loop (chart_point pf txs now (range_of period) (interval_count period)) n)"
    by (auto simp: list_all_iff set_chart_loop chart_point_def Let_def)
  ultimately show ?thesis by (simp add: series_ok_def)
qed

lemma series_ok_placeholder: "series_ok (generateEmptyChart period now)"
proof -
  let ?n = "interval_count period"
  let ?ts = "\<lambda>i. real_of_int now - (real ?n - real i) * (range_of period / real ?n)"
  have step: "0 < range_of period / real ?n"
    using range_of_pos [of period] interval_count_pos [of period] by simp
  have mono: "?ts i < ?ts j" if "i < j" for i j
  proof -
    have "real ?n - real j < real ?n - real i" using that by simp
    then have "(real ?n - real j) * (range_of period / real ?n)
        < (real ?n - real i) * (range_of period / real ?n)"
      using step by (rule mult_strict_right_mono)
    then show ?thesis by simp
  qed
  have "sorted_wrt (\<lambda>i j. ?ts i < ?ts j) [0..<?n]"
    using mono by (simp add: sorted_wrt_iff_nth_less)
  then have "sorted_wrt (\<lambda>a b. cp_timestamp a < cp_timestamp b) (generateEmptyChart period now)"
    by (simp add: generateEmptyChart_def Let_def sorted_wrt_map)
  moreover have "list_all (\<lambda>p. 0 \<le> cp_value p) (generateEmptyChart period now)"
    by (simp add: generateEmptyChart_def Let_def list_all_iff)
  ultimately show ?thesis by (simp add: series_ok_def)
qed

lemma getChartData_miss:
  assumes miss: "fst (getCachedData (chart_cacheKey env pk period) (t_chart_read tm) cc) = None"
    and h: "fst (getTransactionHistory lib env net (t_tx_read tm) (t_tx_write tm) pk 6 txc) = Inr txs"
  shows "fst (getChartData lib env net tm pk period txc cc) =
     (if token_transfers txs = [] then generateEmptyChart period (t_now tm)
      else chart_loop
             (chart_point (parseFloat lib) (token_transfers txs) (t_now tm)
                (range_of period) (interval_count period))
             (interval_count period))"
  using assms
  by (cases "getCachedData (chart_cacheKey env pk period) (t_chart_read tm) cc";
      cases "getTransactionHistory lib env net (t_tx_read tm) (t_tx_write tm) pk 6 txc")
     (simp add: getChartData_def Let_def token_transfers_def)

lemma ex_chart_miss:
  "fst (getCachedData (chart_cacheKey env pk period) t Map.empty) = None"
  by (simp add: getCachedData_def)

lemma ex_empty_history:
  "fst (getTransactionHistory lib_dec ex_env ex_net_empty t t' ex_address 6 Map.empty) = Inr []"
proof -
  have "fetch_transactions lib_dec ex_net_empty ex_address 6 = Inr []"
    by (simp add: fetch_transactions_def ex_net_empty_def accepted_def lib_dec_def
          stable_sort_def)
  then show ?thesis
    by (simp add: getTransactionHistory_fetch [OF ex_tx_miss ex_configured])
qed

lemma ex_small_tokens: "token_transfers [ex_token 0, ex_token 1, ex_zero_tx] \<noteq> []"
  by (simp add: token_transfers_def ex_token_def)

text \<open>
  Claim C2, as amended. On a miss of the chart cache, \<open>getChartData\<close> returns
  \<open>intervals + 1\<close> points when the history holds a token transfer, and \<open>intervals\<close>
  points (the placeholder series) when it holds none; \<open>intervals\<close> is 12, 24, 48, 50,
  50, 50 for the periods 1H, 6H, 1D, 1W, 1M, All.
\<close>

theorem chart_point_count:
  assumes miss: "fst (getCachedData (chart_cacheKey env pk period) (t_chart_read tm) cc) = None"
    and h: "fst (getTransactionHistory lib env net (t_tx_read tm) (t_tx_write tm) pk 6 txc) = Inr txs"
  shows "(token_transfers txs \<noteq> [] \<longrightarrow>
            length (fst (getChartData lib env net tm pk period txc cc)) = interval_count period + 1)
    \<and> (token_transfers txs = [] \<longrightarrow>
            length (fst (getChartData lib env net tm pk period txc cc)) = interval_count period)
    \<and> map interval_count [''1H'', ''6H'', ''1D'', ''1W'', ''1M'', ''All'']
        = [12, 24, 48, 50, 50, 50]"
  by (simp add: getChartData_miss [OF miss h] length_chart_loop length_generateEmptyChart
        interval_count_def)

theorem chart_point_count_counterexample:
  "length (fst (getChartData lib_dec ex_env ex_net_empty ex_times ex_address ''1H''
      Map.empty Map.empty)) = 12
   \<and> interval_count ''1H'' + 1 = 13"
  by (simp add: getChartData_miss [OF ex_chart_miss ex_empty_history] token_transfers_def
        length_generateEmptyChart interval_count_def)

theorem chart_point_count_witness:
  "fst (getCachedData (chart_cacheKey ex_env ex_address ''1H'') (t_chart_read ex_times)
        (Map.empty :: ChartDataPoint list cache))
     = None
   \<and> fst (getTransactionHistory lib_dec ex_env ex_net_small (t_tx_read ex_times)
        (t_tx_write ex_times) ex_address 6 Map.empty) = Inr [ex_token 0, ex_token 1, ex_zero_tx]
   \<and> token_transfers [ex_token 0, ex_token 1, ex_zero_tx] \<noteq> []
   \<and> length (fst (getChartData lib_dec ex_env ex_net_small ex_times ex_address ''1H''
        Map.empty Map.empty)) = 13
   \<and> fst (getCachedData (chart_cacheKey ex_env ex_address ''6H'') (t_chart_read ex_times)
        (Map.empty :: ChartDataPoint list cache))
     = None
   \<and> fst (getTransactionHistory lib_dec ex_env ex_net_empty (t_tx_read ex_times)
        (t_tx_write ex_times) ex_address 6 Map.empty) = Inr []
   \<and> token_transfers [] = []
   \<and> length (fst (getChartData lib_dec ex_env ex_net_empty ex_times ex_address ''6H''
        Map.empty Map.empty)) = 24"
proof -
  have a: "length (fst (getChartData lib_dec ex_env ex_net_small ex_times ex_address ''1H''
        Map.empty Map.empty)) = interval_count ''1H'' + 1"
    using chart_point_count [OF ex_chart_miss ex_small_history] ex_small_tokens by blast
  have e: "token_transfers [] = []"
    by (simp add: token_transfers_def)
  have b: "length (fst (getChartData lib_dec ex_env ex_net_empty ex_times ex_address ''6H''
        Map.empty Map.empty)) = interval_count ''6H''"
    using chart_point_count [OF ex_chart_miss ex_empty_history] e by blast
  show ?thesis
    using a b e ex_small_tokens
    by (simp add: interval_count_def ex_chart_miss ex_small_history ex_empty_history)
qed

lemma generateEmptyChart_1D_nth:
  assumes "i < 48"
  shows "generateEmptyChart ''1D'' now ! i
     = \<lparr>cp_value = 1000, cp_timestamp = real_of_int now - 86400000 + 1800000 * real i\<rparr>"
proof -
  have "[0..<48] ! i = i"
    using assms by simp
  then show ?thesis
    using assms
    by (simp add: generateEmptyChart_def interval_count_def range_of_def ranges_def Let_def
          algebra_simps)
qed

text \<open>
  Claim C3, as amended. When the history holds no token transfer and the period is
  \<open>1D\<close>, \<open>getChartData\<close> (on a miss of the chart cache) returns 48 points, all with the
  placeholder value 1000, at timestamps 30 minutes apart that start 24 hours before
  \<open>now\<close> and end 30 minutes before \<open>now\<close>.
\<close>

theorem placeholder_1D:
  assumes miss: "fst (getCachedData (chart_cacheKey env pk ''1D'') (t_chart_read tm) cc) = None"
    and h: "fst (getTransactionHistory lib env net (t_tx_read tm) (t_tx_write tm) pk 6 txc) = Inr txs"
    and e: "token_transfers txs = []"
  shows "length (fst (getChartData lib env net tm pk ''1D'' txc cc)) = 48
    \<and> (\<forall>i < 48. fst (getChartData lib env net tm pk ''1D'' txc cc) ! i
          = \<lparr>cp_value = 1000,
              cp_timestamp = real_of_int (t_now tm) - 86400000 + 1800000 * real i\<rparr>)"
  using e
  by (simp add: getChartData_miss [OF miss h] length_generateEmptyChart interval_count_def
        generateEmptyChart_1D_nth)

theorem placeholder_1D_counterexample:
  "length (fst (getChartData lib_dec ex_env ex_net_empty ex_times ex_address ''1D''
      Map.empty Map.empty)) \<noteq> 49"
  by (simp add: getChartData_miss [OF ex_chart_miss ex_empty_history] token_transfers_def
        length_generateEmptyChart interval_count_def)

theorem placeholder_1D_witness:
  "fst (getCachedData (chart_cacheKey ex_env ex_address ''1D'') (t_chart_read ex_times)
        (Map.empty :: ChartDataPoint list cache))
     = None
   \<and> fst (getTransactionHistory lib_dec ex_env ex_net_zero (t_tx_read ex_times)
        (t_tx_write ex_times) ex_address 6 Map.empty) = Inr [ex_zero_tx]
   \<and> token_transfers [ex_zero_tx] = []
   \<and> length (fst (getChartData lib_dec ex_env ex_net_zero ex_times ex_address ''1D''
        Map.empty Map.empty)) = 48
   \<and> fst (getChartData lib_dec ex_env ex_net_zero ex_times ex_address ''1D''
        Map.empty Map.empty) ! 0
       = \<lparr>cp_value = 1000, cp_timestamp = 1700000100401 - 86400000\<rparr>
   \<and> fst (getChartData lib_dec ex_env ex_net_zero ex_times ex_address ''1D''
        Map.empty Map.empty) ! 47
       = \<lparr>cp_value = 1000, cp_timestamp = 1700000100401 - 1800000\<rparr>"
proof -
  have e: "token_transfers [ex_zero_tx] = []"
    by (simp add: token_transfers_def ex_zero_tx_def)
  note t = placeholder_1D [where env = ex_env and pk = ex_address and tm = ex_times
      and cc = Map.empty and lib = lib_dec and net = ex_net_zero and txc = Map.empty
      and txs = "[ex_zero_tx]", OF ex_chart_miss ex_zero_history_any e]
  have l: "length (fst (getChartData lib_dec ex_env ex_net_zero ex_times ex_address ''1D''
        Map.empty Map.empty)) = 48"
    using t by blast
  have n: "\<forall>i < 48. fst (getChartData lib_dec ex_env ex_net_zero ex_times ex_address ''1D''
        Map.empty Map.empty) ! i
       = \<lparr>cp_value = 1000,
           cp_timestamp = real_of_int (t_now ex_times) - 86400000 + 1800000 * real i\<rparr>"
    using t by blast
  have a: "fst (getChartData lib_dec ex_env ex_net_zero ex_times ex_address ''1D''
        Map.empty Map.empty) ! 0
       = \<lparr>cp_value = 1000, cp_timestamp = 1700000100401 - 86400000\<rparr>"
    using n by (simp add: ex_times_def)
  have b: "fst (getChartData lib_dec ex_env ex_net_zero ex_times ex_address ''1D''
        Map.empty Map.empty) ! 47
       = \<lparr>cp_value = 1000, cp_timestamp = 1700000100401 - 1800000\<rparr>"
    using n by (simp add: ex_times_def)
  show ?thesis
    using e l a b by (simp add: ex_chart_miss ex_zero_history_any)
qed

lemma chart_cache_ok_delete: "chart_cache_ok cc \<Longrightarrow> chart_cache_ok (cc(k := None))"
  by (simp add: chart_cache_ok_def)

lemma chart_cache_ok_set:
  "chart_cache_ok cc \<Longrightarrow> series_ok ps \<Longrightarrow> chart_cache_ok (setCachedData k ps t cc)"
  by (simp add: chart_cache_ok_def setCachedData_def)

lemma getCachedData_cases:
  "(\<exists>e. c key = Some e \<and> getCachedData key now c = (Some (ce_data e), c))
   \<or> getCachedData key now c = (None, c(key := None))"
  by (simp add: getCachedData_def split: option.splits)

lemma getChartData_series_ok:
  assumes inv: "chart_cache_ok cc"
  shows "series_ok (fst (getChartData lib env net tm pk period txc cc))
    \<and> chart_cache_ok (snd (snd (getChartData lib env net tm pk period txc cc)))"
proof -
  let ?key = "chart_cacheKey env pk period"
  consider e where "cc ?key = Some e"
      "getCachedData ?key (t_chart_read tm) cc = (Some (ce_data e), cc)"
    | "getCachedData ?key (t_chart_read tm) cc = (None, cc(?key := None))"
    using getCachedData_cases [of cc ?key "t_chart_read tm"] by blast
  then show ?thesis
  proof cases
    case 1
    then have "series_ok (ce_data e)"
      using inv by (simp add: chart_cache_ok_def)
    with 1 inv show ?thesis
      by (simp add: getChartData_def Let_def)
  next
    case 2
    have d: "chart_cache_ok (cc(?key := None))"
      using inv by (rule chart_cache_ok_delete)
    obtain r txc1 where g:
      "getTransactionHistory lib env net (t_tx_read tm) (t_tx_write tm) pk 6 txc = (r, txc1)"
      by (cases "getTransactionHistory lib env net (t_tx_read tm) (t_tx_write tm) pk 6 txc")
    show ?thesis
    proof (cases r)
      case (Inl err)
      with 2 g d show ?thesis
        by (simp add: getChartData_def Let_def series_ok_placeholder)
    next
      case (Inr transactions)
      show ?thesis
      proof (cases "filter (\<lambda>tx. tx_asset tx = TOKEN) transactions = []")
        case True
        with 2 g d Inr show ?thesis
          by (simp add: getChartData_def Let_def series_ok_placeholder)
      next
        case False
        with 2 g d Inr show ?thesis
          by (simp add: getChartData_def Let_def series_ok_replay chart_cache_ok_set)
      qed
    qed
  qed
qed

text \<open>
  Claim C9. The placeholder series and the replayed series both have strictly
  ascending timestamps and no negative value (the running balance is clamped with
  \<open>Math.max(0, ...)\<close>). As the chart cache only ever holds series that \<open>getChartData\<close>
  stored, it is in order from the empty cache on, and then every sequence
  \<open>getChartData\<close> returns, cached ones included, is such a series and the cache stays
  in order.
\<close>

theorem chart_series_ok:
  "series_ok (generateEmptyChart period now)
   \<and> series_ok (chart_loop
        (chart_point pf tokenTxs now (range_of period) (interval_count period))
        (interval_count period))
   \<and> (\<forall>p \<in> set (chart_loop
        (chart_point pf tokenTxs now (range_of period) (interval_count period))
        (interval_count period)).
          \<exists>i \<le> interval_count period.
            cp_timestamp p = real_of_int now - real i * range_of period / real (interval_count period)
            \<and> cp_value p = max 0 (running_balance pf (cp_timestamp p) tokenTxs 0))
   \<and> chart_cache_ok Map.empty
   \<and> (chart_cache_ok cc \<longrightarrow>
        series_ok (fst (getChartData lib env net tm pk period txc cc))
        \<and> chart_cache_ok (snd (snd (getChartData lib env net tm pk period txc cc))))"
proof (intro conjI impI ballI)
  show "series_ok (generateEmptyChart period now)"
    by (rule series_ok_placeholder)
  show "series_ok (chart_loop
        (chart_point pf tokenTxs now (range_of period) (interval_count period))
        (interval_count period))"
    by (rule series_ok_replay)
  show "chart_cache_ok Map.empty"
    by (simp add: chart_cache_ok_def)
next
  fix p
  assume "p \<in> set (chart_loop
        (chart_point pf tokenTxs now (range_of period) (interval_count period))
        (interval_count period))"
  then show "\<exists>i \<le> interval_count period.
            cp_timestamp p = real_of_int now - real i * range_of period / real (interval_count period)
            \<and> cp_value p = max 0 (running_balance pf (cp_timestamp p) tokenTxs 0)"
    by (auto simp: set_chart_loop chart_point_def Let_def)
next
  assume inv: "chart_cache_ok cc"
  show "series_ok (fst (getChartData lib env net tm pk period txc cc))"
    using getChartData_series_ok [OF inv] by blast
  show "chart_cache_ok (snd (snd (getChartData lib env net tm pk period txc cc)))"
    using getChartData_series_ok [OF inv] by blast
qed

theorem chart_series_ok_witness:
  "chart_cache_ok (Map.empty :: ChartDataPoint list cache)
   \<and> series_ok (fst (getChartData lib_dec ex_env ex_net_small ex_times ex_address ''1H''
        Map.empty Map.empty))
   \<and> chart_cache_ok (snd (snd (getChartData lib_dec ex_env ex_net_small ex_times ex_address
        ''1H'' Map.empty Map.empty)))
   \<and> length (fst (getChartData lib_dec ex_env ex_net_small ex_times ex_address ''1H''
        Map.empty Map.empty)) = 13"
proof -
  note t = chart_series_ok [of "''1H''" 0 parseFloat_dec "[]" Map.empty lib_dec ex_env
      ex_net_small ex_times ex_address Map.empty]
  have e: "chart_cache_ok (Map.empty :: ChartDataPoint list cache)"
    using t by blast
  have l: "length (fst (getChartData lib_dec ex_env ex_net_small ex_times ex_address ''1H''
        Map.empty Map.empty)) = 13"
    using ex_small_tokens
    by (simp add: getChartData_miss [OF ex_chart_miss ex_small_history] length_chart_loop
          interval_count_def)
  show ?thesis
    using e l t by blast
qed

section \<open>The balance snapshot and withdrawals\<close>

text \<open>
  Claim C10. When the balance cache holds an entry under the key of the address that
  is less than 60000 ms old, \<open>getWalletBalance\<close> returns the cached snapshot and
  leaves the cache as it is, whatever the address and the RPC configuration are: the
  address test and the RPC test come after the cache read. Without the entry the same
  call raises for a malformed address, and for an unconfigured RPC endpoint.
\<close>

theorem wallet_cache_before_checks:
  "(c (balance_cacheKey env publicKey) = Some e \<and> now - ce_timestamp e < 60000 \<longrightarrow>
      getWalletBalance env now now' publicKey fetched c = (Inr (ce_data e), c))
   \<and> (fst (getCachedData (balance_cacheKey env publicKey) now c) = None
        \<and> invalid_address publicKey \<longrightarrow>
      fst (getWalletBalance env now now' publicKey fetched c)
        = Inl (Error ''Invalid Ethereum address''))
   \<and> (fst (getCachedData (balance_cacheKey env publicKey) now c) = None
        \<and> \<not> invalid_address publicKey \<and> not_configured (RPC_URL env) \<longrightarrow>
      fst (getWalletBalance env now now' publicKey fetched c)
        = Inl (Error ''RPC_URL not configured in .env.local''))"
  by (cases "getCachedData (balance_cacheKey env publicKey) now c")
     (auto simp: getWalletBalance_def getCachedData_def CACHE_DURATION_def Let_def
        split: option.splits if_splits)

theorem wallet_cache_before_checks_witness:
  "setCachedData (balance_cacheKey ex_env_norpc ''not-an-address'') ex_wallet_data 1000 Map.empty
      (balance_cacheKey ex_env_norpc ''not-an-address'')
     = Some \<lparr>ce_data = ex_wallet_data, ce_timestamp = 1000\<rparr>
   \<and> 60999 - ce_timestamp \<lparr>ce_data = ex_wallet_data, ce_timestamp = 1000\<rparr> < 60000
   \<and> invalid_address ''not-an-address''
   \<and> not_configured (RPC_URL ex_env_norpc)
   \<and> getWalletBalance ex_env_norpc 60999 61400 ''not-an-address'' (Inl (Error ''no network''))
        (setCachedData (balance_cacheKey ex_env_norpc ''not-an-address'') ex_wallet_data 1000
           Map.empty)
       = (Inr ex_wallet_data,
          setCachedData (balance_cacheKey ex_env_norpc ''not-an-address'') ex_wallet_data 1000
            Map.empty)
   \<and> fst (getCachedData (balance_cacheKey ex_env_norpc ''not-an-address'') 60999
        (Map.empty :: WalletData cache)) = None
   \<and> fst (getWalletBalance ex_env_norpc 60999 61400 ''not-an-address''
        (Inl (Error ''no network'')) Map.empty)
       = Inl (Error ''Invalid Ethereum address'')
   \<and> fst (getCachedData (balance_cacheKey ex_env_norpc ex_address) 60999
        (Map.empty :: WalletData cache)) = None
   \<and> \<not> invalid_address ex_address
   \<and> fst (getWalletBalance ex_env_norpc 60999 61400 ex_address
        (Inl (Error ''no network'')) Map.empty)
       = Inl (Error ''RPC_URL not configured in .env.local'')"
proof -
  let ?c = "setCachedData (balance_cacheKey ex_env_norpc ''not-an-address'') ex_wallet_data 1000
      Map.empty"
  let ?e = "\<lparr>ce_data = ex_wallet_data, ce_timestamp = 1000\<rparr>"
  have h1: "?c (balance_cacheKey ex_env_norpc ''not-an-address'') = Some ?e"
    by (simp add: setCachedData_def)
  have h2: "60999 - ce_timestamp ?e < 60000"
    by simp
  have bad: "invalid_address ''not-an-address''"
    by (simp add: invalid_address_def startsWith_def)
  have good: "\<not> invalid_address ex_address"
    by (simp add: invalid_address_def startsWith_def ex_address_def)
  have norpc: "not_configured (RPC_URL ex_env_norpc)"
    by (simp add: not_configured_def ex_env_norpc_def)
  have miss: "fst (getCachedData k 60999 (Map.empty :: WalletData cache)) = None" for k
    by (simp add: getCachedData_def)
  have a: "getWalletBalance ex_env_norpc 60999 61400 ''not-an-address''
      (Inl (Error ''no network'')) ?c = (Inr (ce_data ?e), ?c)"
    using h1 h2
      wallet_cache_before_checks [of ?c ex_env_norpc "''not-an-address''" ?e 60999 61400
        "Inl (Error ''no network'')"]
    by blast
  have b: "fst (getWalletBalance ex_env_norpc 60999 61400 ''not-an-address''
      (Inl (Error ''no network'')) Map.empty) = Inl (Error ''Invalid Ethereum address'')"
    using miss bad
      wallet_cache_before_checks [of Map.empty ex_env_norpc "''not-an-address''" ?e 60999 61400
        "Inl (Error ''no network'')"]
    by blast
  have d: "fst (getWalletBalance ex_env_norpc 60999 61400 ex_address
      (Inl (Error ''no network'')) Map.empty) = Inl (Error ''RPC_URL not configured in .env.local'')"
    using miss good norpc
      wallet_cache_before_checks [of Map.empty ex_env_norpc ex_address ?e 60999 61400
        "Inl (Error ''no network'')"]
    by blast
  show ?thesis
    using h1 h2 bad good norpc a b d
      miss [of "balance_cacheKey ex_env_norpc ''not-an-address''"]
      miss [of "balance_cacheKey ex_env_norpc ex_address"]
    by simp
qed

lemma withdrawFunds_insufficient_sent:
  assumes "ch_balanceOf chain = Inr balance" "parseUnits amount 6 = Inr amountInUnits"
    and "balance < amountInUnits"
  shows "fst (snd (withdrawFunds parseUnits env chain toAddress amount c)) = []
    \<and> snd (snd (withdrawFunds parseUnits env chain toAddress amount c)) = c
    \<and> \<not> tr_success (fst (withdrawFunds parseUnits env chain toAddress amount c))"
proof -
  have k: "\<not> tr_success (caught e)" for e
    by (cases e) (simp add: failure_def)
  show ?thesis
    using assms
    by (simp add: withdrawFunds_def failure_def k split: sum.splits)
qed

lemma withdrawFunds_insufficient_result:
  assumes "ch_balanceOf chain = Inr balance" "parseUnits amount 6 = Inr amountInUnits"
    and "balance < amountInUnits"
    and "\<not> invalid_address toAddress" "\<not> not_configured (WALLET_PRIVATE_KEY env)"
    and "\<not> isl (ch_wallet chain)" "\<not> not_configured (TOKEN_CONTRACT_ADDRESS env)"
  shows "fst (withdrawFunds parseUnits env chain toAddress amount c)
     = \<lparr>tr_success = False, tr_txHash = None, tr_error = Some ''Insufficient balance''\<rparr>"
  using assms
  by (cases "ch_wallet chain"; cases "TOKEN_CONTRACT_ADDRESS env")
     (simp_all add: withdrawFunds_def failure_def getTokenContract_def not_configured_def)

text \<open>
  Claim C8, as amended. When the requested amount in token units exceeds the balance
  that \<open>balanceOf\<close> reports, \<open>withdrawFunds\<close> makes no \<open>transfer\<close> call, reports no
  success and leaves the cache alone, whatever else holds; and when the recipient
  address is well-formed, the signing key and the token contract are configured and
  the wallet can be constructed, its result is
  \<open>{success: false, error: 'Insufficient balance'}\<close>.
\<close>

theorem withdraw_insufficient_balance:
  assumes bal: "ch_balanceOf chain = Inr balance"
    and amt: "parseUnits amount 6 = Inr amountInUnits"
    and less: "balance < amountInUnits"
  shows "fst (snd (withdrawFunds parseUnits env chain toAddress amount c)) = []
    \<and> snd (snd (withdrawFunds parseUnits env chain toAddress amount c)) = c
    \<and> \<not> tr_success (fst (withdrawFunds parseUnits env chain toAddress amount c))
    \<and> (\<not> invalid_address toAddress \<and> \<not> not_configured (WALLET_PRIVATE_KEY env)
         \<and> \<not> isl (ch_wallet chain) \<and> \<not> not_configured (TOKEN_CONTRACT_ADDRESS env) \<longrightarrow>
        fst (withdrawFunds parseUnits env chain toAddress amount c)
          = \<lparr>tr_success = False, tr_txHash = None, tr_error = Some ''Insufficient balance''\<rparr>)"
  using bal amt less
    withdrawFunds_insufficient_sent [where chain = chain and parseUnits = parseUnits
      and amount = amount and balance = balance and amountInUnits = amountInUnits
      and env = env and toAddress = toAddress and c = c]
    withdrawFunds_insufficient_result [where chain = chain and parseUnits = parseUnits
      and amount = amount and balance = balance and amountInUnits = amountInUnits
      and env = env and toAddress = toAddress and c = c]
  by blast

lemma ex_amount: "parseUnits_dec ''100'' 6 = Inr 100000000"
  by (simp add: parseUnits_dec_def parse_unsigned_units_def digit_val_def)

lemma ex_balance: "ch_balanceOf ex_chain = Inr 50000000"
  by (simp add: ex_chain_def)

theorem withdraw_insufficient_balance_counterexample:
  "ch_balanceOf ex_chain = Inr 50000000
   \<and> parseUnits_dec ''100'' 6 = Inr 100000000
   \<and> (50000000 :: int) < 100000000
   \<and> fst (withdrawFunds parseUnits_dec ex_env ex_chain ''0x1234'' ''100'' Map.empty)
       = \<lparr>tr_success = False, tr_txHash = None, tr_error = Some ''Invalid recipient address''\<rparr>
   \<and> Some ''Invalid recipient address'' \<noteq> Some ''Insufficient balance''"
  using ex_amount ex_balance
  by (simp add: withdrawFunds_def invalid_address_def startsWith_def failure_def)

theorem withdraw_insufficient_balance_witness:
  "ch_balanceOf ex_chain = Inr 50000000
   \<and> parseUnits_dec ''100'' 6 = Inr 100000000
   \<and> (50000000 :: int) < 100000000
   \<and> \<not> invalid_address ex_other \<and> \<not> not_configured (WALLET_PRIVATE_KEY ex_env)
   \<and> \<not> isl (ch_wallet ex_chain) \<and> \<not> not_configured (TOKEN_CONTRACT_ADDRESS ex_env)
   \<and> withdrawFunds parseUnits_dec ex_env ex_chain ex_other ''100'' Map.empty
       = (\<lparr>tr_success = False, tr_txHash = None, tr_error = Some ''Insufficient balance''\<rparr>,
          [], Map.empty)"
proof -
  have l: "(50000000 :: int) < 100000000"
    by simp
  have v: "\<not> invalid_address ex_other"
    by (simp add: invalid_address_def startsWith_def ex_other_def)
  have k: "\<not> not_configured (WALLET_PRIVATE_KEY ex_env)"
    and t: "\<not> not_configured (TOKEN_CONTRACT_ADDRESS ex_env)"
    by (simp_all add: not_configured_def ex_env_def startsWith_def)
  have w: "\<not> isl (ch_wallet ex_chain)"
    by (simp add: ex_chain_def)
  note r = withdraw_insufficient_balance [where chain = ex_chain
      and parseUnits = parseUnits_dec and amount = "''100''" and balance = 50000000
      and amountInUnits = 100000000 and env = ex_env and toAddress = ex_other
      and c = "Map.empty :: WalletData cache", OF ex_balance ex_amount l]
  have "withdrawFunds parseUnits_dec ex_env ex_chain ex_other ''100'' Map.empty
       = (\<lparr>tr_success = False, tr_txHash = None, tr_error = Some ''Insufficient balance''\<rparr>,
          [], Map.empty)"
    using r v k t w by (simp add: prod_eq_iff)
  then show ?thesis
    using ex_balance ex_amount l v k t w by blast
qed

end
